theory Spec2Isabelle
  imports Complex_Main "HOL-Library.AList"
begin

section \<open>Values\<close>

text \<open>
  A request carries parsed JSON: the scalar values below (arrays and nested objects are
  not used by the routes modelled here). A field that is absent from an object reads as
  \<open>None\<close>, which is JavaScript's \<open>undefined\<close>.
\<close>

datatype jval = JNull | JBool bool | JNum int | JStr string

type_synonym obj = "(string \<times> jval) list"

text \<open>
  Stored documents hold BSON values: the JSON scalars, the creation \<open>Date\<close> (a
  timestamp) and the store-assigned \<open>ObjectId\<close>. The driver writes \<open>undefined\<close>
  as null.
\<close>

datatype bson = BNull | BBool bool | BNum int | BStr string | BDate nat | BObjectId nat

type_synonym doc = "(string \<times> bson) list"

fun to_bson :: "jval option \<Rightarrow> bson" where
  "to_bson None = BNull"
| "to_bson (Some JNull) = BNull"
| "to_bson (Some (JBool b)) = BBool b"
| "to_bson (Some (JNum n)) = BNum n"
| "to_bson (Some (JStr s)) = BStr s"

definition doc_of_obj :: "obj \<Rightarrow> doc" where
  "doc_of_obj b = map (\<lambda>(k, v). (k, to_bson (Some v))) b"

subsection \<open>Decimal rendering of numbers (\<open>String(n)\<close>)\<close>

fun digits :: "nat \<Rightarrow> string" where
  "digits n = (if n < 10 then [''0123456789'' ! n]
               else digits (n div 10) @ [''0123456789'' ! (n mod 10)])"

declare digits.simps [simp del]

definition show_int :: "int \<Rightarrow> string" where
  "show_int i = (if i < 0 then CHR ''-'' # digits (nat (- i)) else digits (nat i))"

text \<open>
  express-validator hands every standard validator the string form of the value:
  \<open>undefined\<close> and \<open>null\<close> become the empty string, everything else \<open>String(value)\<close>.
\<close>

fun toString :: "jval option \<Rightarrow> string" where
  "toString None = ''''"
| "toString (Some JNull) = ''''"
| "toString (Some (JBool b)) = (if b then ''true'' else ''false'')"
| "toString (Some (JNum n)) = show_int n"
| "toString (Some (JStr s)) = s"

section \<open>Field validation (the express-validator chains of the validators directory)\<close>

datatype location = Body | Query | Params

fun location_name :: "location \<Rightarrow> string" where
  "location_name Body = ''body''"
| "location_name Query = ''query''"
| "location_name Params = ''params''"

text \<open>
  What \<open>JSON.parse(req.query.isActiveOffers)\<close> meets: the parameter is missing or
  empty (it is then never parsed), it is not JSON (the parse throws), or it parses to a
  value that is truthy or falsy.
\<close>

datatype active_flag = NotGiven | NotJson | Parsed bool

text \<open>
  A JavaScript number: not a number, a finite value (whole, fractional, negative) or an
  infinity (\<open>Infinite True\<close> is the positive one). \<open>whole\<close> reads a whole number of the
  32-bit range, which the driver hands to the store as an integer.
\<close>

datatype jsnum = NaN | Fin rat | Infinite bool

definition whole :: "jsnum \<Rightarrow> int option" where
  "whole x = (case x of
                Fin r \<Rightarrow> (if of_int (floor r) = r \<and> - 2147483648 \<le> r \<and> r < 2147483648
                          then Some (floor r) else None)
              | _ \<Rightarrow> None)"

record request =
  body :: obj
  query :: obj
  params :: obj
  userId :: string
  now :: nat
  offset :: jsnum
  limit :: jsnum
  isActiveOffers :: active_flag

text \<open>
  \<open>userId\<close> is \<open>res.locals.userId\<close>, set by the authentication middleware, and
  \<open>now\<close> is what \<open>new Date()\<close> returns while the request is handled. \<open>offset\<close> and
  \<open>limit\<close> are the numbers \<open>+req.query.offset\<close> and \<open>+req.query.limit\<close>: \<open>NaN\<close>
  when the parameter is missing or not a number, any other number otherwise.
\<close>

fun section_of :: "request \<Rightarrow> location \<Rightarrow> obj" where
  "section_of req Body = body req"
| "section_of req Query = query req"
| "section_of req Params = params req"

text \<open>
  The standard validators used by the chains of the routes below: \<open>isString\<close> looks
  at the raw value, the others at its string form. \<open>matches\<close> is only ever called with
  an anchored alternation \<open>/^(a|b|c)$/\<close>, kept here as the list of its alternatives.
\<close>

datatype check = IsString | NotEmpty | MatchesOneOf "string list"

fun passes :: "check \<Rightarrow> jval option \<Rightarrow> bool" where
  "passes IsString v = (case v of Some (JStr s) \<Rightarrow> True | _ \<Rightarrow> False)"
| "passes NotEmpty v = (toString v \<noteq> '''')"
| "passes (MatchesOneOf alts) v = (toString v \<in> set alts)"

text \<open>
  One entry of the error array. express-validator also copies the offending value into
  the entry; it plays no part here and is left out.
\<close>

record verror =
  location :: location
  param :: string
  msg :: string

text \<open>
  A validation chain is either a field chain
  \<open>body('f').isString().withMessage(m1).notEmpty().withMessage(m2)\<close>, whose validators
  all run (none of the chains calls \<open>bail\<close>), or a whole-section custom validator
  \<open>body().custom(... validateFields(req.body, allowed, 'body') ...)\<close>.
\<close>

datatype rule =
    FieldRule location string "(check \<times> string) list"
  | AllowList location "string list" string

fun join_keys :: "string list \<Rightarrow> string" where
  "join_keys [] = ''''"
| "join_keys [k] = k"
| "join_keys (k # ks) = k @ '', '' @ join_keys ks"

text \<open>
  Modelled from the spec: \<open>validateFields\<close> of \<open>utils/validators-utils.js\<close> is not among
  the sources. The spec's allow-list checker groups every key of the section that is not
  permitted into one message "The following fields are not allowed in {section}:
  {comma-joined extra keys}"; the custom validators of the chains turn that failure into
  one validation error. \<open>None\<close> means the call returns normally, \<open>Some m\<close> that it
  throws an error with message \<open>m\<close>.
\<close>

definition validateFields :: "obj \<Rightarrow> string list \<Rightarrow> string \<Rightarrow> string option" where
  "validateFields ob allowed label =
     (let extras = filter (\<lambda>k. k \<notin> set allowed) (map fst ob)
      in if extras = [] then None
         else Some (''The following fields are not allowed in '' @ label @ '': '' @ join_keys extras))"

fun run_rule :: "request \<Rightarrow> rule \<Rightarrow> verror list" where
  "run_rule req (FieldRule loc f cs) =
     map (\<lambda>(c, m). \<lparr>location = loc, param = f, msg = m\<rparr>)
       (filter (\<lambda>(c, m). \<not> passes c (map_of (section_of req loc) f)) cs)"
| "run_rule req (AllowList loc allowed label) =
     (case validateFields (section_of req loc) allowed label of
        None \<Rightarrow> []
      | Some m \<Rightarrow> [\<lparr>location = loc, param = '''', msg = m\<rparr>])"

text \<open>\<open>validationResult(req)\<close>: the errors of all chains, in the order the chains ran.\<close>

definition validationResult :: "request \<Rightarrow> rule list \<Rightarrow> verror list" where
  "validationResult req rules = concat (map (run_rule req) rules)"

text \<open>\<open>errors.array(options)\<close>: with \<open>onlyFirstError\<close> one error per field is kept.\<close>

fun first_per_field :: "(location \<times> string) list \<Rightarrow> verror list \<Rightarrow> verror list" where
  "first_per_field seen [] = []"
| "first_per_field seen (e # es) =
     (if (location e, param e) \<in> set seen then first_per_field seen es
      else e # first_per_field ((location e, param e) # seen) es)"

definition array :: "bool \<Rightarrow> verror list \<Rightarrow> verror list" where
  "array onlyFirstError errors = (if onlyFirstError then first_per_field [] errors else errors)"

text \<open>\<open>validateResult\<close> of \<open>utils/validators-utils.js\<close>.\<close>

definition validateResult :: "request \<Rightarrow> rule list \<Rightarrow> verror list" where
  "validateResult req rules =
     (let errors = validationResult req rules
      in if errors \<noteq> [] then array False errors else [])"

subsection \<open>The chains of \<open>validators/orders.validator.js\<close>\<close>

definition string_not_empty :: "(check \<times> string) list" where
  "string_not_empty = [(IsString, ''must be string value''), (NotEmpty, ''must not be empty'')]"

definition createOrderValidator :: "rule list" where
  "createOrderValidator =
     [FieldRule Body ''status''
        [(MatchesOneOf [''pending'', ''success'', ''failure''],
          ''must be one of \"pending\", \"success\" or \"failure\"'')],
      FieldRule Body ''orderId'' [(IsString, ''must be string value'')],
      FieldRule Body ''amountTokenDeposit'' string_not_empty,
      FieldRule Body ''addressTokenDeposit'' string_not_empty,
      FieldRule Body ''chainIdTokenDeposit'' string_not_empty,
      FieldRule Body ''destAddr'' string_not_empty,
      FieldRule Body ''amountTokenOffer'' string_not_empty,
      FieldRule Body ''offerId'' string_not_empty,
      FieldRule Body ''hash'' string_not_empty,
      AllowList Body
        [''status'', ''orderId'', ''amountTokenDeposit'', ''addressTokenDeposit'',
         ''chainIdTokenDeposit'', ''destAddr'', ''amountTokenOffer'', ''offerId'', ''hash'']
        ''body'',
      AllowList Query [] ''query'',
      AllowList Params [] ''params'']"

definition setOrderCompleteValidator :: "rule list" where
  "setOrderCompleteValidator =
     [FieldRule Body ''orderId'' string_not_empty,
      AllowList Body [''orderId''] ''body'',
      AllowList Query [] ''query'',
      AllowList Params [] ''params'']"

definition deleteOrderValidator :: "rule list" where
  "deleteOrderValidator = [FieldRule Params ''orderId'' string_not_empty]"

section \<open>The record store\<close>

text \<open>
  The document store is an external collaborator. A collection is the list of its
  documents in insertion order; \<open>findOne\<close> returns the first document that satisfies
  the filter. Three kinds of filter condition occur in the routes: equality with a
  value, \<open>{$regex: p, $options: 'i'}\<close> and \<open>{$in: [...]}\<close>. Equality with null also
  matches a document that lacks the field. A regular-expression condition holds the
  search that the store has compiled from the pattern (\<open>regex_i\<close> below).
\<close>

datatype cond = Eq string bson | RegexI string "string \<Rightarrow> bool" | In string "bson list"

text \<open>
  What the store does outside the cases computed here is not decided by the sources
  and is a parameter of the routes: whether its engine accepts a pattern that is not
  plain text as a regular expression, what a search then finds, and which page it
  returns for a skip or limit that is not a whole number of the 32-bit range, or for a
  negative limit (\<open>None\<close>: it refuses the query).
\<close>

record server =
  compiles :: "string \<Rightarrow> bool"
  finds :: "string \<Rightarrow> string \<Rightarrow> bool"
  pages :: "jsnum \<Rightarrow> jsnum \<Rightarrow> doc list \<Rightarrow> doc list option"

definition lower :: "char \<Rightarrow> char" where
  "lower c = (case map_of (zip ''ABCDEFGHIJKLMNOPQRSTUVWXYZ'' ''abcdefghijklmnopqrstuvwxyz'') c of
                None \<Rightarrow> c | Some l \<Rightarrow> l)"

fun starts_with :: "string \<Rightarrow> string \<Rightarrow> bool" where
  "starts_with [] s = True"
| "starts_with (p # ps) [] = False"
| "starts_with (p # ps) (c # cs) = (p = c \<and> starts_with ps cs)"

fun contains :: "string \<Rightarrow> string \<Rightarrow> bool" where
  "contains p [] = (p = [])"
| "contains p (c # cs) = (starts_with p (c # cs) \<or> contains p cs)"

text \<open>
  \<open>{$regex: pat, $options: 'i'}\<close>. A regular expression without anchors is searched
  for anywhere in the subject. The patterns of the routes are user identities. A
  pattern made of letters, digits and the plain punctuation below only
  (\<open>literal_pattern\<close>: no character has a meaning in a regular expression) is always a
  regular expression, and in a subject of ASCII characters its case-insensitive search
  is the case-insensitive substring test. Every other pattern is a regular expression
  if the engine compiles it, and the store refuses the query if not (\<open>None\<close>); what it
  finds, and what any pattern finds in a subject with characters outside ASCII, is the
  engine's answer.
\<close>

definition literal_pattern :: "string \<Rightarrow> bool" where
  "literal_pattern p =
     list_all (\<lambda>c. c \<in> set (''abcdefghijklmnopqrstuvwxyzABCDEFGHIJKLMNOPQRSTUVWXYZ''
                              @ ''0123456789 :-_@/,;=!#%&~<>'')) p"

definition ascii :: "string \<Rightarrow> bool" where
  "ascii s = list_all (\<lambda>c. \<not> digit7 c) s"

definition search_i :: "server \<Rightarrow> string \<Rightarrow> string \<Rightarrow> bool" where
  "search_i sv pat s =
     (if literal_pattern pat \<and> ascii s then contains (map lower pat) (map lower s)
      else finds sv pat s)"

definition regex_i :: "server \<Rightarrow> string \<Rightarrow> (string \<Rightarrow> bool) option" where
  "regex_i sv pat =
     (if literal_pattern pat \<or> compiles sv pat then Some (search_i sv pat) else None)"

definition field :: "doc \<Rightarrow> string \<Rightarrow> bson" where
  "field d k = (case map_of d k of None \<Rightarrow> BNull | Some v \<Rightarrow> v)"

fun matches_cond :: "doc \<Rightarrow> cond \<Rightarrow> bool" where
  "matches_cond d (Eq k v) = (field d k = v)"
| "matches_cond d (RegexI k search) =
     (case map_of d k of Some (BStr s) \<Rightarrow> search s | _ \<Rightarrow> False)"
| "matches_cond d (In k vs) = (field d k \<in> set vs)"

definition matches :: "cond list \<Rightarrow> doc \<Rightarrow> bool" where
  "matches f d = list_all (matches_cond d) f"

definition findOne :: "cond list \<Rightarrow> doc list \<Rightarrow> doc option" where
  "findOne f docs = List.find (matches f) docs"

definition countDocuments :: "cond list \<Rightarrow> doc list \<Rightarrow> nat" where
  "countDocuments f docs = length (filter (matches f) docs)"

text \<open>
  \<open>find(q).sort({date: -1}).skip(s).limit(l).toArray()\<close>. A document whose \<open>date\<close> is
  not a Date sorts below every Date; ties keep the stored order. The store refuses a
  negative whole skip (\<open>None\<close>: the call throws). With a whole skip and limit that are
  not negative it skips, and takes up to the limit, \<open>limit(0)\<close> being no limit. For any
  other pair of numbers the page is the one the \<open>server\<close> parameter gives.
\<close>

definition date_key :: "doc \<Rightarrow> int" where
  "date_key d = (case map_of d ''date'' of Some (BDate t) \<Rightarrow> - (int t) - 1 | _ \<Rightarrow> 0)"

definition find_sorted_page ::
  "server \<Rightarrow> cond list \<Rightarrow> jsnum \<Rightarrow> jsnum \<Rightarrow> doc list \<Rightarrow> doc list option" where
  "find_sorted_page sv f s l docs =
     (let sorted = sort_key date_key (filter (matches f) docs)
      in case whole s of
           None \<Rightarrow> pages sv s l sorted
         | Some i \<Rightarrow>
             if i < 0 then None
             else case whole l of
                    None \<Rightarrow> pages sv s l sorted
                  | Some j \<Rightarrow>
                      if j < 0 then pages sv s l sorted
                      else let skipped = drop (nat i) sorted
                           in Some (if j = 0 then skipped else take (nat j) skipped))"

text \<open>A whole document used as a filter: every field must be equal.\<close>

definition doc_filter :: "doc \<Rightarrow> cond list" where
  "doc_filter d = map (\<lambda>(k, v). Eq k v) d"

fun update_first :: "(doc \<Rightarrow> bool) \<Rightarrow> (doc \<Rightarrow> doc) \<Rightarrow> doc list \<Rightarrow> doc list" where
  "update_first P g [] = []"
| "update_first P g (d # ds) = (if P d then g d # ds else d # update_first P g ds)"

fun remove_first :: "(doc \<Rightarrow> bool) \<Rightarrow> doc list \<Rightarrow> doc list" where
  "remove_first P [] = []"
| "remove_first P (d # ds) = (if P d then ds else d # remove_first P ds)"

text \<open>\<open>{$set: {...}}\<close>: an existing field is overwritten in place, a new one is added.\<close>

definition apply_set :: "doc \<Rightarrow> doc \<Rightarrow> doc" where
  "apply_set upd d = foldl (\<lambda>acc (k, v). AList.update k v acc) d upd"

section \<open>Handling one request\<close>

record database =
  orders :: "doc list"
  offers :: "doc list"
  nextId :: nat

datatype collection = Orders | Offers

text \<open>Response bodies, calls that change the store, and notifications.\<close>

datatype payload =
    Errors "verror list"
  | Msg string
  | InsertResult nat
  | UpdateResult nat nat
  | DeleteResult nat
  | OrderList "doc list" nat

datatype mutation =
    InsertOne collection doc
  | UpdateOne collection "doc option" doc
  | DeleteOne collection doc

record notification =
  nmethod :: string
  ntype :: string
  nid :: "jval option"

text \<open>
  The state threaded through a handler: the store, the status code set on the response
  object, the response the client received (\<open>sent\<close>), whether the handler has thrown,
  the log of mutating store calls it issued, and the notifications it dispatched.
\<close>

record ctx = database +
  statusCode :: nat
  sent :: "(nat \<times> payload) option"
  raised :: bool
  mutations :: "mutation list"
  dispatched :: "notification list"

definition start :: "database \<Rightarrow> ctx" where
  "start d = \<lparr>orders = orders d, offers = offers d, nextId = nextId d,
              statusCode = 200, sent = None, raised = False, mutations = [], dispatched = []\<rparr>"

text \<open>
  \<open>res.status(n)\<close> sets the status code. \<open>res.send(b)\<close> sends the response with the
  status code set so far; on a response that has already been sent it throws (the
  headers cannot be set again), so the client keeps the first response. Nothing runs
  after the handler has thrown.
\<close>

definition status :: "nat \<Rightarrow> ctx \<Rightarrow> ctx" where
  "status n c = (if raised c then c else c\<lparr>statusCode := n\<rparr>)"

definition send :: "payload \<Rightarrow> ctx \<Rightarrow> ctx" where
  "send b c = (if raised c then c
               else if sent c \<noteq> None then c\<lparr>raised := True\<rparr>
               else c\<lparr>sent := Some (statusCode c, b)\<rparr>)"

definition throw :: "ctx \<Rightarrow> ctx" where
  "throw c = c\<lparr>raised := True\<rparr>"

definition dispatch :: "notification \<Rightarrow> ctx \<Rightarrow> ctx" where
  "dispatch n c = (if raised c then c else c\<lparr>dispatched := dispatched c @ [n]\<rparr>)"

fun coll :: "collection \<Rightarrow> ctx \<Rightarrow> doc list" where
  "coll Orders c = orders c"
| "coll Offers c = offers c"

fun set_coll :: "collection \<Rightarrow> doc list \<Rightarrow> ctx \<Rightarrow> ctx" where
  "set_coll Orders ds c = c\<lparr>orders := ds\<rparr>"
| "set_coll Offers ds c = c\<lparr>offers := ds\<rparr>"

text \<open>
  \<open>insertOne\<close> gives a document without \<open>_id\<close> a fresh ObjectId and appends it; a
  document that brings an \<open>_id\<close> already in the collection is refused (the call throws).
  The result is the inserted id.
\<close>

definition insertOne :: "collection \<Rightarrow> doc \<Rightarrow> ctx \<Rightarrow> nat \<times> ctx" where
  "insertOne cl d c =
     (if raised c then (0, c)
      else let c1 = c\<lparr>mutations := mutations c @ [InsertOne cl d]\<rparr>
           in case map_of d ''_id'' of
                None \<Rightarrow>
                  (nextId c,
                   (set_coll cl (coll cl c @ [(''_id'', BObjectId (nextId c)) # d]) c1)
                     \<lparr>nextId := Suc (nextId c)\<rparr>)
              | Some i \<Rightarrow>
                  (if \<exists>e \<in> set (coll cl c). map_of e ''_id'' = Some i then (0, throw c1)
                   else (0, set_coll cl (coll cl c @ [d]) c1)))"

text \<open>
  \<open>updateOne(filter, {$set: upd})\<close> changes the first document that equals the filter
  document on all its fields and answers \<open>(matchedCount, modifiedCount)\<close>. The routes
  can pass \<open>null\<close> as the filter (a record that was not found): the call is made, the
  driver rejects it (a selector must be an object) and nothing is changed.
\<close>

definition updateOne :: "collection \<Rightarrow> doc option \<Rightarrow> doc \<Rightarrow> ctx \<Rightarrow> (nat \<times> nat) \<times> ctx" where
  "updateOne cl flt upd c =
     (if raised c then ((0, 0), c)
      else let c1 = c\<lparr>mutations := mutations c @ [UpdateOne cl flt upd]\<rparr>
           in case flt of
                None \<Rightarrow> ((0, 0), throw c1)
              | Some f \<Rightarrow>
                  (case findOne (doc_filter f) (coll cl c) of
                     None \<Rightarrow> ((0, 0), c1)
                   | Some old \<Rightarrow>
                       ((1, if apply_set upd old = old then 0 else 1),
                        set_coll cl (update_first (matches (doc_filter f)) (apply_set upd) (coll cl c)) c1)))"

definition deleteOne :: "collection \<Rightarrow> doc \<Rightarrow> ctx \<Rightarrow> nat \<times> ctx" where
  "deleteOne cl f c =
     (if raised c then (0, c)
      else let c1 = c\<lparr>mutations := mutations c @ [DeleteOne cl f]\<rparr>
           in case findOne (doc_filter f) (coll cl c) of
                None \<Rightarrow> (0, c1)
              | Some old \<Rightarrow> (1, set_coll cl (remove_first (matches (doc_filter f)) (coll cl c)) c1))"

section \<open>The orders routes\<close>

text \<open>
  \<open>ORDER_STATUS\<close> of \<open>utils/orders-utils.js\<close> is not among the sources; the routes take
  the three constants they use as a parameter.
\<close>

record order_status =
  PENDING :: string
  SUCCESS :: string
  COMPLETION :: string

text \<open>\<open>router.post('/')\<close>: create an order.\<close>

definition newDocument :: "order_status \<Rightarrow> request \<Rightarrow> doc" where
  "newDocument os req =
     AList.update ''status'' (BStr (PENDING os))
       (AList.update ''isComplete'' (BBool False)
         (AList.update ''userId'' (BStr (userId req))
           (AList.update ''date'' (BDate (now req)) (doc_of_obj (body req)))))"

definition post_order :: "order_status \<Rightarrow> request \<Rightarrow> database \<Rightarrow> ctx" where
  "post_order os req d =
     (let c0 = start d;
          validator = validateResult req createOrderValidator
      in if validator \<noteq> [] then send (Errors validator) (status 400 c0)
         else
           let c1 = (if findOne [Eq ''orderId'' (to_bson (map_of (body req) ''orderId''))] (orders c0) \<noteq> None
                        \<and> map_of (body req) ''orderId'' \<noteq> Some (JStr [])
                     then send (Msg ''This order already exists.'') (status 404 c0)
                     else c0);
               (r, c2) = insertOne Orders (newDocument os req) c1
           in status 201 (send (InsertResult r) c2))"

text \<open>
  \<open>router.get('/user')\<close> and \<open>router.get('/liquidity-provider')\<close>. Their validation
  chains (\<open>getOrdersPaginationValidator\<close>, \<open>getOrdersLiquidityProviderValidator\<close>) and
  \<open>getOrdersWithOffers\<close> are not among the sources and are parameters; the handlers
  never call \<open>validateResult\<close>.
\<close>

text \<open>
  \<open>x || 0\<close> on a number: zero for NaN (and for zero), the number itself otherwise.
\<close>

definition or_zero :: "jsnum \<Rightarrow> jsnum" where
  "or_zero x = (case x of NaN \<Rightarrow> Fin 0 | _ \<Rightarrow> x)"

text \<open>
  Every query of these routes filters on \<open>{userId: {$regex: res.locals.userId, $options:
  'i'}}\<close>; the store throws, before anything is sent, when the identity is not a regular
  expression or when it refuses the page.
\<close>

definition get_user ::
  "server \<Rightarrow> (database \<Rightarrow> doc list \<Rightarrow> doc list) \<Rightarrow> rule list \<Rightarrow> request \<Rightarrow> database \<Rightarrow> ctx" where
  "get_user sv getOrdersWithOffers getOrdersPaginationValidator req d =
     (let c0 = start d
      in case regex_i sv (userId req) of
           None \<Rightarrow> throw c0
         | Some search \<Rightarrow>
             let q = [RegexI ''userId'' search]
             in case find_sorted_page sv q (or_zero (offset req)) (or_zero (limit req)) (orders c0) of
                  None \<Rightarrow> throw c0
                | Some found \<Rightarrow>
                    status 200
                      (send (OrderList (getOrdersWithOffers d found) (countDocuments q (orders c0)))
                         c0))"

text \<open>The offers of the caller, all or by \<open>isActive\<close>, and the orders on them.\<close>

definition provider_query :: "(string \<Rightarrow> bool) \<Rightarrow> active_flag \<Rightarrow> doc list \<Rightarrow> cond list" where
  "provider_query search flag offs =
     (let activeOffersForUser =
            filter (matches (RegexI ''userId'' search #
                             (case flag of Parsed b \<Rightarrow> [Eq ''isActive'' (BBool b)] | _ \<Rightarrow> [])))
              offs
      in [In ''offerId'' (map (\<lambda>offer. field offer ''offerId'') activeOffersForUser)])"

definition get_liquidity_provider ::
  "server \<Rightarrow> (database \<Rightarrow> doc list \<Rightarrow> doc list) \<Rightarrow> rule list \<Rightarrow> request \<Rightarrow> database \<Rightarrow> ctx" where
  "get_liquidity_provider sv getOrdersWithOffers getOrdersLiquidityProviderValidator req d =
     (let c0 = start d
      in case isActiveOffers req of
           NotJson \<Rightarrow> throw c0
         | flag \<Rightarrow>
             (case regex_i sv (userId req) of
                None \<Rightarrow> throw c0
              | Some search \<Rightarrow>
                  let q = provider_query search flag (offers c0)
                  in case find_sorted_page sv q (or_zero (offset req)) (or_zero (limit req))
                            (orders c0) of
                       None \<Rightarrow> throw c0
                     | Some found \<Rightarrow>
                         send (OrderList (getOrdersWithOffers d found) (countDocuments q (orders c0)))
                           (status 200 c0)))"

text \<open>\<open>router.put('/complete')\<close>.\<close>

definition complete_filter :: "order_status \<Rightarrow> (string \<Rightarrow> bool) \<Rightarrow> request \<Rightarrow> cond list" where
  "complete_filter os search req =
     [Eq ''orderId'' (to_bson (map_of (body req) ''orderId'')),
      RegexI ''userId'' search,
      Eq ''status'' (BStr (SUCCESS os))]"

definition put_complete :: "server \<Rightarrow> order_status \<Rightarrow> request \<Rightarrow> database \<Rightarrow> ctx" where
  "put_complete sv os req d =
     (let c0 = start d;
          validator = validateResult req setOrderCompleteValidator
      in if validator \<noteq> [] then send (Errors validator) (status 400 c0)
         else
           case regex_i sv (userId req) of
             None \<Rightarrow> throw c0
           | Some search \<Rightarrow>
               (case findOne (complete_filter os search req) (orders c0) of
                  None \<Rightarrow> send (Msg ''No order found'') (status 404 c0)
                | Some order \<Rightarrow>
                    let (r, c1) = updateOne Orders (Some order)
                                    [(''status'', BStr (COMPLETION os)),
                                     (''completionHash'',
                                      to_bson (map_of (body req) ''completionHash''))]
                                    (status 200 c0)
                    in send (UpdateResult (fst r) (snd r)) c1))"

text \<open>\<open>router.delete('/:orderId')\<close>.\<close>

definition delete_order :: "server \<Rightarrow> request \<Rightarrow> database \<Rightarrow> ctx" where
  "delete_order sv req d =
     (let c0 = start d;
          validator = validateResult req deleteOrderValidator
      in if validator \<noteq> [] then send (Errors validator) (status 400 c0)
         else
           case regex_i sv (userId req) of
             None \<Rightarrow> throw c0
           | Some search \<Rightarrow>
               (case findOne [Eq ''orderId'' (to_bson (map_of (params req) ''orderId'')),
                              RegexI ''userId'' search] (orders c0) of
                  Some order \<Rightarrow>
                    let (r, c1) = deleteOne Orders order (status 200 c0)
                    in send (DeleteResult r) c1
                | None \<Rightarrow> send (Msg ''No order found'') (status 404 c0)))"

section \<open>The webhook routes\<close>

text \<open>
  The chains of \<open>validators/webhook.validator.js\<close> are not among the sources; each
  handler takes its chain as a parameter.

  \<open>req.body.key ?? record.field\<close>: the body value unless it is null or undefined;
  otherwise the field of the record, and reading a field of \<open>null\<close> throws.
\<close>

definition coalesce :: "jval option \<Rightarrow> doc option \<Rightarrow> string \<Rightarrow> bson option" where
  "coalesce v record f =
     (if v \<noteq> None \<and> v \<noteq> Some JNull then Some (to_bson v)
      else case record of None \<Rightarrow> None | Some r \<Rightarrow> Some (field r f))"

text \<open>
  The part the webhook handlers share after the lookup: the update, the notification
  when a document was modified, and the 200 response.
\<close>

definition update_and_notify ::
  "collection \<Rightarrow> doc option \<Rightarrow> doc \<Rightarrow> notification \<Rightarrow> ctx \<Rightarrow> ctx" where
  "update_and_notify cl record upd n c =
     (let (response, c1) = updateOne cl record upd c;
          c2 = (if snd response > 0 then dispatch n c1 else c1)
      in send (UpdateResult (fst response) (snd response)) (status 200 c2))"

definition set_offer_field ::
  "string \<Rightarrow> string \<Rightarrow> string \<Rightarrow> doc option \<Rightarrow> request \<Rightarrow> ctx \<Rightarrow> ctx" where
  "set_offer_field f key m offer req c =
     (case coalesce (map_of (body req) key) offer f of
        None \<Rightarrow> throw c
      | Some v \<Rightarrow>
          update_and_notify Offers offer [(f, v)]
            \<lparr>nmethod = m, ntype = ''offer'', nid = map_of (body req) ''_idOffer''\<rparr> c)"

definition find_offer :: "request \<Rightarrow> ctx \<Rightarrow> doc option" where
  "find_offer req c = findOne [Eq ''offerId'' (to_bson (map_of (body req) ''_idOffer''))] (offers c)"

text \<open>\<open>router.put('/offer/max-price')\<close>: returns when no offer is found.\<close>

definition put_offer_max_price :: "rule list \<Rightarrow> request \<Rightarrow> database \<Rightarrow> ctx" where
  "put_offer_max_price updateMaxPriceOfferValidator req d =
     (let c0 = start d;
          validator = validateResult req updateMaxPriceOfferValidator
      in if validator \<noteq> [] then send (Errors validator) (status 400 c0)
         else
           let offer = find_offer req c0
           in if offer = None then send (Msg ''No offer found'') (status 400 c0)
              else set_offer_field ''max'' ''_upperMaxFn'' ''maxPrice'' offer req c0)"

text \<open>
  \<open>min-price\<close>, \<open>token\<close>, \<open>chain\<close> and \<open>activation-deactivation\<close>: the not-found
  response is sent and the handler goes on.
\<close>

definition put_offer_min_price :: "rule list \<Rightarrow> request \<Rightarrow> database \<Rightarrow> ctx" where
  "put_offer_min_price updateMinPriceOfferValidator req d =
     (let c0 = start d;
          validator = validateResult req updateMinPriceOfferValidator
      in if validator \<noteq> [] then send (Errors validator) (status 400 c0)
         else
           let offer = find_offer req c0;
               c1 = (if offer = None then send (Msg ''No offer found'') (status 400 c0) else c0)
           in set_offer_field ''min'' ''_lowerLimitFn'' ''minPrice'' offer req c1)"

definition put_offer_token :: "rule list \<Rightarrow> request \<Rightarrow> database \<Rightarrow> ctx" where
  "put_offer_token updateTokenOfferValidator req d =
     (let c0 = start d;
          validator = validateResult req updateTokenOfferValidator
      in if validator \<noteq> [] then send (Errors validator) (status 400 c0)
         else
           let offer = find_offer req c0;
               c1 = (if offer = None then send (Msg ''No offer found'') (status 400 c0) else c0)
           in set_offer_field ''tokenAddress'' ''_token'' ''token'' offer req c1)"

definition put_offer_chain :: "rule list \<Rightarrow> request \<Rightarrow> database \<Rightarrow> ctx" where
  "put_offer_chain updateChainIdOfferValidator req d =
     (let c0 = start d;
          validator = validateResult req updateChainIdOfferValidator
      in if validator \<noteq> [] then send (Errors validator) (status 400 c0)
         else
           let offer = find_offer req c0;
               c1 = (if offer = None then send (Msg ''No offer found'') (status 400 c0) else c0)
           in set_offer_field ''chainId'' ''_chainId'' ''chain'' offer req c1)"

definition put_offer_activation :: "rule list \<Rightarrow> request \<Rightarrow> database \<Rightarrow> ctx" where
  "put_offer_activation updateStatusOfferValidator req d =
     (let c0 = start d;
          validator = validateResult req updateStatusOfferValidator
      in if validator \<noteq> [] then send (Errors validator) (status 400 c0)
         else
           let offer = find_offer req c0;
               c1 = (if offer = None then send (Msg ''Not found.'') (status 404 c0) else c0)
           in set_offer_field ''isActive'' ''_isActive'' ''status'' offer req c1)"

text \<open>\<open>router.put('/offer')\<close> and \<open>router.put('/order')\<close>: found by transaction hash.\<close>

definition put_offer :: "rule list \<Rightarrow> request \<Rightarrow> database \<Rightarrow> ctx" where
  "put_offer updateOfferValidator req d =
     (let c0 = start d;
          validator = validateResult req updateOfferValidator
      in if validator \<noteq> [] then send (Errors validator) (status 400 c0)
         else
           let offer = findOne [Eq ''hash'' (to_bson (map_of (body req) ''_grinderyTransactionHash''))] (offers c0);
               c1 = (if offer = None then send (Msg ''No offer found'') (status 404 c0) else c0)
           in update_and_notify Offers offer
                [(''offerId'', to_bson (map_of (body req) ''_idOffer'')), (''status'', BStr ''success'')]
                \<lparr>nmethod = ''success'', ntype = ''offer'', nid = map_of (body req) ''_idOffer''\<rparr> c1)"

definition put_order :: "rule list \<Rightarrow> request \<Rightarrow> database \<Rightarrow> ctx" where
  "put_order updateOrderValidator req d =
     (let c0 = start d;
          validator = validateResult req updateOrderValidator
      in if validator \<noteq> [] then send (Errors validator) (status 400 c0)
         else
           let order = findOne [Eq ''hash'' (to_bson (map_of (body req) ''_grinderyTransactionHash''))] (orders c0);
               c1 = (if order = None then send (Msg ''No order found'') (status 404 c0) else c0)
           in update_and_notify Orders order
                [(''orderId'', to_bson (map_of (body req) ''_idTrade'')), (''status'', BStr ''success'')]
                \<lparr>nmethod = ''success'', ntype = ''order'', nid = map_of (body req) ''_idTrade''\<rparr> c1)"

section \<open>Well-formed collections\<close>

text \<open>
  What the store guarantees for every collection: a document has each key once, it has
  an \<open>_id\<close>, and no two documents share an \<open>_id\<close>.
\<close>

definition wf_collection :: "doc list \<Rightarrow> bool" where
  "wf_collection ds =
     (list_all (\<lambda>d. distinct (map fst d) \<and> map_of d ''_id'' \<noteq> None) ds
      \<and> distinct (map (\<lambda>d. map_of d ''_id'') ds))"

text \<open>The store a handler leaves behind.\<close>

definition db_of :: "ctx \<Rightarrow> database" where
  "db_of c = \<lparr>orders = orders c, offers = offers c, nextId = nextId c\<rparr>"

text \<open>The response status the client received, if any.\<close>

definition responded :: "ctx \<Rightarrow> nat option" where
  "responded c = map_option fst (sent c)"

text \<open>Creating orders one after the other with the same request.\<close>

fun create_many :: "order_status \<Rightarrow> request \<Rightarrow> nat \<Rightarrow> database \<Rightarrow> database" where
  "create_many os req 0 d = d"
| "create_many os req (Suc n) d = db_of (post_order os req (create_many os req n d))"




text \<open>The keys of a section that an allow-list does not permit, and the error for them.\<close>

definition extra_keys :: "obj \<Rightarrow> string list \<Rightarrow> string list" where
  "extra_keys ob allowed = filter (\<lambda>k. k \<notin> set allowed) (map fst ob)"

definition not_allowed :: "location \<Rightarrow> string list \<Rightarrow> verror" where
  "not_allowed loc extras =
     \<lparr>location = loc, param = [],
      msg = ''The following fields are not allowed in '' @ location_name loc @ '': '' @ join_keys extras\<rparr>"

definition order_fields :: "string list" where
  "order_fields =
     [''status'', ''orderId'', ''amountTokenDeposit'', ''addressTokenDeposit'',
      ''chainIdTokenDeposit'', ''destAddr'', ''amountTokenOffer'', ''offerId'', ''hash'']"

section \<open>Example data\<close>

definition status_names :: order_status where
  "status_names = \<lparr>PENDING = ''pending'', SUCCESS = ''success'', COMPLETION = ''completion''\<rparr>"

definition create_body :: "string \<Rightarrow> obj" where
  "create_body oid =
     [(''status'', JStr ''pending''), (''orderId'', JStr oid),
      (''amountTokenDeposit'', JStr ''0.34''), (''addressTokenDeposit'', JStr ''0x0''),
      (''chainIdTokenDeposit'', JStr ''13434''), (''destAddr'', JStr ''mydestAddr''),
      (''amountTokenOffer'', JStr ''5433''), (''offerId'', JStr ''myOfferId''),
      (''hash'', JStr ''myhash'')]"

definition request_of :: "string \<Rightarrow> obj \<Rightarrow> request" where
  "request_of uid b =
     \<lparr>body = b, query = [], params = [], userId = uid, now = 7,
      offset = NaN, limit = NaN, isActiveOffers = NotGiven\<rparr>"

definition create_request :: "string \<Rightarrow> request" where
  "create_request oid = request_of ''alice'' (create_body oid)"

definition empty_db :: database where
  "empty_db = \<lparr>orders = [], offers = [], nextId = 0\<rparr>"

definition first_create :: ctx where
  "first_create = post_order status_names (create_request ''X'') empty_db"

definition second_create :: ctx where
  "second_create = post_order status_names (create_request ''X'') (db_of first_create)"

text \<open>A stored order, and a stand-in for \<open>getOrdersWithOffers\<close> that adds nothing.\<close>

definition stored_order :: "nat \<Rightarrow> string \<Rightarrow> string \<Rightarrow> string \<Rightarrow> string \<Rightarrow> nat \<Rightarrow> doc" where
  "stored_order i oid uid st h t =
     [(''_id'', BObjectId i), (''orderId'', BStr oid), (''userId'', BStr uid),
      (''status'', BStr st), (''hash'', BStr h), (''date'', BDate t)]"

definition orders_as_stored :: "database \<Rightarrow> doc list \<Rightarrow> doc list" where
  "orders_as_stored d os = os"

definition two_users_db :: database where
  "two_users_db =
     \<lparr>orders = [stored_order 0 ''A'' ''alice'' ''success'' ''h0'' 1,
                stored_order 1 ''B'' ''alice2'' ''pending'' ''h1'' 2],
      offers = [], nextId = 2\<rparr>"

definition same_hash_db :: database where
  "same_hash_db =
     \<lparr>orders = [stored_order 0 ''A'' ''alice'' ''success'' ''h'' 1,
                stored_order 1 [] ''bob'' ''pending'' ''h'' 2],
      offers = [], nextId = 2\<rparr>"

definition pagination_chain :: "rule list" where
  "pagination_chain = [FieldRule Query ''limit'' [(NotEmpty, ''must not be empty'')]]"

definition active_chain :: "rule list" where
  "active_chain =
     [FieldRule Query ''isActiveOffers''
        [(MatchesOneOf [''true'', ''false''], ''must be boolean value'')]]"

definition not_json_request :: request where
  "not_json_request =
     (request_of ''alice'' [])\<lparr>query := [(''isActiveOffers'', JStr ''abc'')], isActiveOffers := NotJson\<rparr>"

definition hook_request :: request where
  "hook_request =
     request_of [] [(''_grinderyTransactionHash'', JStr ''h''), (''_idTrade'', JStr ''T'')]"

definition offer_hook_request :: request where
  "offer_hook_request =
     request_of []
       [(''_idOffer'', JStr ''missing''), (''_upperMaxFn'', JStr ''9''), (''_lowerLimitFn'', JStr ''1''),
        (''_token'', JStr ''0xt''), (''_chainId'', JStr ''5''), (''_isActive'', JBool True)]"

text \<open>
  Two completion requests for the order "A" of the user "alice": one by the caller
  "lic", one by "alice" that carries a completion hash.
\<close>

definition intruder_request :: request where
  "intruder_request = request_of ''lic'' [(''orderId'', JStr ''A'')]"

definition hash_request :: request where
  "hash_request =
     request_of ''alice'' [(''orderId'', JStr ''A''), (''completionHash'', JStr ''0xabc'')]"

text \<open>A list request with \<open>offset=-1\<close>.\<close>

definition negative_offset_request :: request where
  "negative_offset_request =
     (request_of ''alice'' [])\<lparr>query := [(''offset'', JStr ''-1'')], offset := Fin (- 1)\<rparr>"

text \<open>
  A stand-in for the store's parameter that refuses whatever is left to it; the examples
  (plain identities, whole numbers) never reach it.
\<close>

definition strict_server :: server where
  "strict_server =
     \<lparr>compiles = (\<lambda>pat. False), finds = (\<lambda>pat s. False), pages = (\<lambda>s l found. None)\<rparr>"


definition unexpected_fields_request :: request where
  "unexpected_fields_request =
     (request_of ''alice'' (create_body ''X'' @ [(''foo'', JStr ''unexpected value'')]))
       \<lparr>query := [(''bar'', JStr ''unexpectedValue'')]\<rparr>"

text \<open>A store whose first order is pending and carries the hash of the webhook request.\<close>

definition pending_db :: database where
  "pending_db =
     \<lparr>orders = [stored_order 0 [] ''bob'' ''pending'' ''h'' 1,
                stored_order 1 ''B'' ''carol'' ''pending'' ''k'' 2],
      offers = [], nextId = 2\<rparr>"

text \<open>
  A list request whose \<open>isActiveOffers\<close> is the string "1": it parses as JSON, to a
  truthy value, and is not one of "true" and "false".
\<close>

definition truthy_request :: request where
  "truthy_request =
     (request_of ''alice'' [])\<lparr>query := [(''isActiveOffers'', JStr ''1'')], isActiveOffers := Parsed True\<rparr>"

text \<open>
  A number that the store takes as a skip or limit as it is: whole, of the 32-bit range
  and not negative.
\<close>

definition counting :: "jsnum \<Rightarrow> bool" where
  "counting x = (case whole x of None \<Rightarrow> False | Some i \<Rightarrow> 0 \<le> i)"

section \<open>Validation passes: what the request then looks like\<close>

lemma validateResult_empty_iff:
  "validateResult req rules = [] \<longleftrightarrow> (\<forall>r \<in> set rules. run_rule req r = [])"
  by (auto simp: validateResult_def validationResult_def array_def Let_def)

lemma allow_list_ok:
  "run_rule req (AllowList loc allowed label) = []
     \<longleftrightarrow> set (map fst (section_of req loc)) \<subseteq> set allowed"
  by (auto simp: validateFields_def Let_def filter_empty_conv split: option.splits if_splits)

lemma valid_create_keys:
  assumes "validateResult req createOrderValidator = []"
  shows "fst ` set (body req) \<subseteq> set order_fields"
proof -
  have "run_rule req (AllowList Body order_fields ''body'') = []"
    using assms unfolding validateResult_empty_iff createOrderValidator_def order_fields_def
    by simp
  then show ?thesis unfolding allow_list_ok by simp
qed

lemma map_of_doc_of_obj:
  "map_of (doc_of_obj b) k = map_option (\<lambda>v. to_bson (Some v)) (map_of b k)"
  by (induction b) (auto simp: doc_of_obj_def)

lemma newDocument_no_id:
  assumes "''_id'' \<notin> fst ` set (body req)"
  shows "map_of (newDocument os req) ''_id'' = None"
  using assms
  by (simp add: newDocument_def update_conv' map_of_doc_of_obj map_of_eq_None_iff)

lemma newDocument_orderId:
  "field (newDocument os req) ''orderId'' = to_bson (map_of (body req) ''orderId'')"
  by (cases "map_of (body req) ''orderId''")
     (simp_all add: field_def newDocument_def update_conv' map_of_doc_of_obj)

lemma findOne_None_iff: "findOne f ds = None \<longleftrightarrow> (\<forall>x \<in> set ds. \<not> matches f x)"
  by (auto simp: findOne_def find_None_iff)

lemma countDocuments_append:
  "countDocuments f (xs @ ys) = countDocuments f xs + countDocuments f ys"
  by (simp add: countDocuments_def)

section \<open>Creating an order\<close>

text \<open>
  A request that passes \<open>createOrderValidator\<close> always reaches the insert: the
  already-exists response is sent without returning, so the new document is appended
  whether or not that response went out.
\<close>

lemma post_order_valid:
  assumes "validateResult req createOrderValidator = []"
  shows "sent (post_order os req d) =
           (if findOne [Eq ''orderId'' (to_bson (map_of (body req) ''orderId''))] (orders d) \<noteq> None
               \<and> map_of (body req) ''orderId'' \<noteq> Some (JStr [])
            then Some (404, Msg ''This order already exists.'')
            else Some (200, InsertResult (nextId d)))"
    and "orders (post_order os req d)
           = orders d @ [(''_id'', BObjectId (nextId d)) # newDocument os req]"
proof -
  have "''_id'' \<notin> fst ` set (body req)"
    using valid_create_keys[OF assms] by (auto simp: order_fields_def)
  then have noid: "map_of (newDocument os req) ''_id'' = None"
    by (rule newDocument_no_id)
  show "sent (post_order os req d) =
           (if findOne [Eq ''orderId'' (to_bson (map_of (body req) ''orderId''))] (orders d) \<noteq> None
               \<and> map_of (body req) ''orderId'' \<noteq> Some (JStr [])
            then Some (404, Msg ''This order already exists.'')
            else Some (200, InsertResult (nextId d)))"
    using assms noid
    by (simp add: post_order_def start_def send_def status_def insertOne_def Let_def)
  show "orders (post_order os req d)
          = orders d @ [(''_id'', BObjectId (nextId d)) # newDocument os req]"
    using assms noid
    by (simp add: post_order_def start_def send_def status_def insertOne_def Let_def)
qed

lemma create_many_count:
  assumes v: "validateResult req createOrderValidator = []"
    and e: "map_of (body req) ''orderId'' = Some (JStr [])"
  shows "countDocuments [Eq ''orderId'' (BStr [])] (orders (create_many os req n d))
         = n + countDocuments [Eq ''orderId'' (BStr [])] (orders d)"
proof (induction n)
  case 0
  then show ?case by simp
next
  case (Suc n)
  have "field (newDocument os req) ''orderId'' = BStr []"
    using e by (simp add: newDocument_orderId)
  then have "countDocuments [Eq ''orderId'' (BStr [])]
               [(''_id'', BObjectId k) # newDocument os req] = 1" for k
    by (simp add: countDocuments_def matches_def field_def)
  then show ?case using Suc
    by (simp add: db_of_def post_order_valid(2)[OF v] countDocuments_append)
qed

text \<open>
  Claim C1. Two creation requests with the same non-empty orderId "X": the second is
  answered 404 with "This order already exists.", and the claim wants the store to hold
  exactly one document with orderId "X" afterwards. The handler sends the 404 and goes
  on to the insert: evaluated on the empty store, the second request receives the 404
  and the store then holds two documents with orderId "X".
\<close>

theorem duplicate_create_is_inserted:
  "sent second_create = Some (404, Msg ''This order already exists.'')
   \<and> countDocuments [Eq ''orderId'' (BStr ''X'')] (orders first_create) = 1
   \<and> countDocuments [Eq ''orderId'' (BStr ''X'')] (orders second_create) = 2
   \<and> mutations second_create = [InsertOne Orders (newDocument status_names (create_request ''X''))]"
  by code_simp

text \<open>
  Claim C9. For a creation request that passes validation, the already-exists response
  (404, "This order already exists.") is sent if and only if the orderId is not the empty
  string and some stored order has that orderId. With the empty string as orderId the
  response is the insert result with status 200 and the document is appended, so that
  creating \<open>n\<close> such orders leaves \<open>n\<close> more orders with an empty orderId in the store;
  the validator accepts the empty orderId (the witness is such a request).
\<close>

theorem create_conflict_iff:
  assumes "validateResult req createOrderValidator = []"
  shows "(sent (post_order os req d) = Some (404, Msg ''This order already exists.'')
            \<longleftrightarrow> map_of (body req) ''orderId'' \<noteq> Some (JStr [])
                \<and> (\<exists>x \<in> set (orders d).
                      field x ''orderId'' = to_bson (map_of (body req) ''orderId'')))
       \<and> (map_of (body req) ''orderId'' = Some (JStr []) \<longrightarrow>
            sent (post_order os req d) = Some (200, InsertResult (nextId d))
          \<and> orders (post_order os req d)
              = orders d @ [(''_id'', BObjectId (nextId d)) # newDocument os req]
          \<and> (\<forall>n. countDocuments [Eq ''orderId'' (BStr [])] (orders (create_many os req n d))
                   = n + countDocuments [Eq ''orderId'' (BStr [])] (orders d)))"
proof -
  have ex: "findOne [Eq ''orderId'' v] (orders d) = None
              \<longleftrightarrow> (\<forall>x \<in> set (orders d). field x ''orderId'' \<noteq> v)" for v
    by (simp add: findOne_None_iff matches_def)
  have ex': "(\<exists>y. findOne [Eq ''orderId'' v] (orders d) = Some y)
               \<longleftrightarrow> (\<exists>x \<in> set (orders d). field x ''orderId'' = v)" for v
    using ex[of v] by (cases "findOne [Eq ''orderId'' v] (orders d)") auto
  show ?thesis
    using create_many_count[OF assms]
    by (simp add: post_order_valid[OF assms] ex ex')
qed

theorem create_conflict_iff_witness:
  "validateResult (create_request []) createOrderValidator = []
   \<and> sent (post_order status_names (create_request [])
             (create_many status_names (create_request []) 2 empty_db))
       = Some (200, InsertResult 2)
   \<and> countDocuments [Eq ''orderId'' (BStr [])]
       (orders (create_many status_names (create_request []) 3 empty_db)) = 3"
proof -
  have v: "validateResult (create_request []) createOrderValidator = []"
    by (simp add: create_request_def request_of_def create_body_def validateResult_def
          validationResult_def createOrderValidator_def string_not_empty_def
          validateFields_def array_def)
  have e: "map_of (body (create_request [])) ''orderId'' = Some (JStr [])"
    by (simp add: create_request_def request_of_def create_body_def)
  have n: "nextId (create_many status_names (create_request []) 2 empty_db) = 2"
    by code_simp
  have c: "countDocuments [Eq ''orderId'' (BStr [])] (orders empty_db) = 0"
    by (simp add: empty_db_def countDocuments_def)
  from create_conflict_iff[OF v, of status_names
      "create_many status_names (create_request []) 2 empty_db"] e n
  have a: "sent (post_order status_names (create_request [])
                  (create_many status_names (create_request []) 2 empty_db))
             = Some (200, InsertResult 2)"
    by simp
  from create_conflict_iff[OF v, of status_names empty_db] e c
  have b: "countDocuments [Eq ''orderId'' (BStr [])]
             (orders (create_many status_names (create_request []) 3 empty_db)) = 3"
    by simp
  show ?thesis using v a b by simp
qed

section \<open>The error array\<close>

lemma validateResult_eq: "validateResult req rules = validationResult req rules"
  by (simp add: validateResult_def array_def Let_def)

lemma validationResult_append:
  "validationResult req (rs @ rs') = validationResult req rs @ validationResult req rs'"
  by (simp add: validationResult_def)







section \<open>Allow-list errors\<close>

lemma run_allow_list:
  "run_rule req (AllowList loc allowed (location_name loc))
     = (if extra_keys (section_of req loc) allowed = [] then []
        else [not_allowed loc (extra_keys (section_of req loc) allowed)])"
  by (simp add: validateFields_def extra_keys_def not_allowed_def Let_def)

lemma extra_keys_none_allowed: "extra_keys ob [] = map fst ob"
  by (simp add: extra_keys_def)

lemma createOrderValidator_split:
  "createOrderValidator = take 9 createOrderValidator
      @ [AllowList Body order_fields (location_name Body),
         AllowList Query [] (location_name Query),
         AllowList Params [] (location_name Params)]"
  by (simp add: createOrderValidator_def order_fields_def)

text \<open>
  Claim C7. For every section, the fields that an allow-list does not permit give one
  validation error whose message lists them all: "The following fields are not allowed
  in {section}: {keys joined by commas}". For the creation validator the allow-list
  errors follow the field errors, one per section that has such fields; with an
  unexpected body field and an unexpected query field both errors, which differ, are in
  the answer.
\<close>

theorem allow_list_errors_grouped:
  "(\<forall>loc allowed.
      validateResult req [AllowList loc allowed (location_name loc)]
        = (if extra_keys (section_of req loc) allowed = [] then []
           else [not_allowed loc (extra_keys (section_of req loc) allowed)]))
   \<and> validateResult req createOrderValidator
       = validateResult req (take 9 createOrderValidator)
         @ (if extra_keys (body req) order_fields = [] then []
            else [not_allowed Body (extra_keys (body req) order_fields)])
         @ (if query req = [] then [] else [not_allowed Query (map fst (query req))])
         @ (if params req = [] then [] else [not_allowed Params (map fst (params req))])
   \<and> (extra_keys (body req) order_fields \<noteq> [] \<and> query req \<noteq> [] \<longrightarrow>
        not_allowed Body (extra_keys (body req) order_fields)
          \<in> set (validateResult req createOrderValidator)
      \<and> not_allowed Query (map fst (query req)) \<in> set (validateResult req createOrderValidator)
      \<and> not_allowed Body (extra_keys (body req) order_fields)
          \<noteq> not_allowed Query (map fst (query req)))"
proof -
  have a: "validateResult req [AllowList loc allowed (location_name loc)]
        = (if extra_keys (section_of req loc) allowed = [] then []
           else [not_allowed loc (extra_keys (section_of req loc) allowed)])" for loc allowed
    by (simp add: validateResult_eq validationResult_def run_allow_list del: run_rule.simps)
  have "validateResult req createOrderValidator
       = validateResult req (take 9 createOrderValidator)
         @ validationResult req [AllowList Body order_fields (location_name Body),
             AllowList Query [] (location_name Query),
             AllowList Params [] (location_name Params)]"
    by (subst createOrderValidator_split) (simp only: validateResult_eq validationResult_append)
  then have b: "validateResult req createOrderValidator
       = validateResult req (take 9 createOrderValidator)
         @ (if extra_keys (body req) order_fields = [] then []
            else [not_allowed Body (extra_keys (body req) order_fields)])
         @ (if query req = [] then [] else [not_allowed Query (map fst (query req))])
         @ (if params req = [] then [] else [not_allowed Params (map fst (params req))])"
    using run_allow_list[of req Body order_fields] run_allow_list[of req Query "[]"]
      run_allow_list[of req Params "[]"]
    by (simp add: validationResult_def extra_keys_none_allowed del: run_rule.simps)
  have c: "not_allowed Body xs \<noteq> not_allowed Query ys" for xs ys
    by (simp add: not_allowed_def)
  show ?thesis
    using a c by (auto simp: b)
qed

theorem allow_list_errors_grouped_witness:
  "validateResult unexpected_fields_request createOrderValidator
     = [\<lparr>location = Body, param = [],
         msg = ''The following fields are not allowed in body: foo''\<rparr>,
        \<lparr>location = Query, param = [],
         msg = ''The following fields are not allowed in query: bar''\<rparr>]"
proof -
  let ?r = unexpected_fields_request
  have f: "validateResult ?r (take 9 createOrderValidator) = []"
    by (simp add: unexpected_fields_request_def request_of_def create_body_def
          createOrderValidator_def string_not_empty_def validateResult_def
          validationResult_def array_def)
  have e: "extra_keys (body ?r) order_fields = [''foo''] \<and> map fst (query ?r) = [''bar'']
           \<and> params ?r = [] \<and> query ?r \<noteq> []"
    by (simp add: unexpected_fields_request_def request_of_def create_body_def
          extra_keys_def order_fields_def)
  from allow_list_errors_grouped[of ?r] f e show ?thesis
    by (simp add: not_allowed_def)
qed

section \<open>Lookups and updates in a well-formed collection\<close>

lemma matches_doc_filter:
  "matches (doc_filter f) d \<longleftrightarrow> (\<forall>(k, v) \<in> set f. field d k = v)"
  by (induction f) (auto simp: matches_def doc_filter_def)

lemma matches_self:
  assumes "distinct (map fst o')"
  shows "matches (doc_filter o') o'"
  using assms by (auto simp: matches_doc_filter field_def)

lemma wf_collection_unique:
  assumes wf: "wf_collection ds" and o: "o' \<in> set ds" and d: "d \<in> set ds"
    and m: "matches (doc_filter o') d"
  shows "d = o'"
proof -
  from wf o obtain i where i: "map_of o' ''_id'' = Some i"
    by (auto simp: wf_collection_def list_all_iff)
  from wf d obtain j where j: "map_of d ''_id'' = Some j"
    by (auto simp: wf_collection_def list_all_iff)
  from i have "(''_id'', i) \<in> set o'" by (rule map_of_SomeD)
  with m have "field d ''_id'' = i" by (auto simp: matches_doc_filter)
  with j have "map_of d ''_id'' = map_of o' ''_id''" by (simp add: field_def i)
  moreover from wf have "inj_on (\<lambda>d. map_of d ''_id'') (set ds)"
    by (simp add: wf_collection_def distinct_map)
  ultimately show ?thesis using o d by (auto dest: inj_onD)
qed

lemma wf_collection_in:
  assumes "wf_collection ds" "o' \<in> set ds"
  shows "distinct (map fst o')" "distinct ds"
  using assms by (auto simp: wf_collection_def list_all_iff distinct_map)

lemma findOne_SomeD:
  assumes "findOne f ds = Some x"
  shows "x \<in> set ds" "matches f x"
  using assms by (auto simp: findOne_def find_Some_iff)

lemma findOne_doc_filter:
  assumes wf: "wf_collection ds" and o: "o' \<in> set ds"
  shows "findOne (doc_filter o') ds = Some o'"
proof (cases "findOne (doc_filter o') ds")
  case None
  then show ?thesis
    using o matches_self[OF wf_collection_in(1)[OF wf o]] by (auto simp: findOne_def find_None_iff)
next
  case (Some d)
  then show ?thesis
    using wf_collection_unique[OF wf o findOne_SomeD[OF Some]] by simp
qed

lemma update_first_unique:
  assumes "distinct ds" "\<forall>x \<in> set ds. P x \<longrightarrow> x = o'" "P o'"
  shows "update_first P g ds = map (\<lambda>x. if x = o' then g x else x) ds"
  using assms
proof (induction ds)
  case Nil
  then show ?case by simp
next
  case (Cons d ds)
  show ?case
  proof (cases "P d")
    case True
    then have "d = o'" using Cons.prems by simp
    moreover have "map (\<lambda>x. if x = o' then g x else x) ds = ds"
      using Cons.prems(1) \<open>d = o'\<close> by (auto intro: map_idI)
    ultimately show ?thesis using True by simp
  next
    case False
    then have "d \<noteq> o'" using Cons.prems(3) by auto
    then show ?thesis using False Cons by simp
  qed
qed

lemma updateOne_found:
  assumes wf: "wf_collection (coll cl c)" and o: "o' \<in> set (coll cl c)" and r: "\<not> raised c"
  shows "updateOne cl (Some o') upd c =
           ((1, if apply_set upd o' = o' then 0 else 1),
            set_coll cl (map (\<lambda>x. if x = o' then apply_set upd x else x) (coll cl c))
              (c\<lparr>mutations := mutations c @ [UpdateOne cl (Some o') upd]\<rparr>))"
proof -
  have u: "update_first (matches (doc_filter o')) (apply_set upd) (coll cl c)
             = map (\<lambda>x. if x = o' then apply_set upd x else x) (coll cl c)"
    using wf_collection_unique[OF wf o] matches_self[OF wf_collection_in(1)[OF wf o]]
    by (intro update_first_unique wf_collection_in(2)[OF wf o]) auto
  show ?thesis
    using r by (simp add: updateOne_def findOne_doc_filter[OF wf o] u Let_def)
qed

lemma start_simps:
  "orders (start d) = orders d" "offers (start d) = offers d" "nextId (start d) = nextId d"
  "statusCode (start d) = 200" "sent (start d) = None" "raised (start d) = False"
  "mutations (start d) = []" "dispatched (start d) = []"
  by (simp_all add: start_def)

lemma field_update:
  "field (AList.update k v d) k' = (if k' = k then v else field d k')"
  by (simp add: field_def update_conv')

lemma apply_set_two:
  "apply_set [(k1, v1), (k2, v2)] d = AList.update k2 v2 (AList.update k1 v1 d)"
  by (simp add: apply_set_def)

section \<open>The order webhook\<close>

text \<open>
  Claim C3, amended. The order webhook looks the order up by the transaction hash of
  the request, not by orderId. When an order has that hash, the first such order of the
  collection, whatever its status, gets the orderId of the request and the status
  "success", the other orders stay as they are, and the response has status 200. When
  no order has that hash the response is 404 with "No order found" and the orders are
  unchanged.
\<close>

theorem order_webhook_by_hash:
  assumes v: "validateResult req rules = []" and wf: "wf_collection (orders d)"
  shows "(\<forall>o'. findOne [Eq ''hash'' (to_bson (map_of (body req) ''_grinderyTransactionHash''))] (orders d) = Some o'
            \<longrightarrow> responded (put_order rules req d) = Some 200
              \<and> orders (put_order rules req d)
                  = map (\<lambda>x. if x = o'
                               then AList.update ''status'' (BStr ''success'')
                                      (AList.update ''orderId'' (to_bson (map_of (body req) ''_idTrade'')) x)
                               else x) (orders d)
              \<and> field (AList.update ''status'' (BStr ''success'')
                         (AList.update ''orderId'' (to_bson (map_of (body req) ''_idTrade'')) o')) ''orderId''
                  = to_bson (map_of (body req) ''_idTrade'')
              \<and> field (AList.update ''status'' (BStr ''success'')
                         (AList.update ''orderId'' (to_bson (map_of (body req) ''_idTrade'')) o')) ''status''
                  = BStr ''success'')
       \<and> (findOne [Eq ''hash'' (to_bson (map_of (body req) ''_grinderyTransactionHash''))] (orders d) = None
            \<longrightarrow> sent (put_order rules req d) = Some (404, Msg ''No order found'')
              \<and> orders (put_order rules req d) = orders d)"
proof -
  let ?f = "[Eq ''hash'' (to_bson (map_of (body req) ''_grinderyTransactionHash''))]"
  let ?upd = "[(''orderId'', to_bson (map_of (body req) ''_idTrade'')), (''status'', BStr ''success'')]"
  have found: "responded (put_order rules req d) = Some 200
      \<and> orders (put_order rules req d) = map (\<lambda>x. if x = o' then apply_set ?upd x else x) (orders d)"
    if f: "findOne ?f (orders d) = Some o'" for o'
  proof -
    have o: "o' \<in> set (coll Orders (start d))"
      using findOne_SomeD(1)[OF f] by (simp add: start_simps)
    have w: "wf_collection (coll Orders (start d))" using wf by (simp add: start_simps)
    have r: "\<not> raised (start d)" by (simp add: start_simps)
    show ?thesis
      using v f
      by (simp add: put_order_def update_and_notify_def updateOne_found[OF w o r] Let_def
            responded_def send_def status_def dispatch_def start_simps)
  qed
  have missing: "sent (put_order rules req d) = Some (404, Msg ''No order found'')
      \<and> orders (put_order rules req d) = orders d"
    if f: "findOne ?f (orders d) = None"
    using v f
    by (simp add: put_order_def update_and_notify_def updateOne_def Let_def
          send_def status_def dispatch_def start_simps throw_def)
  show ?thesis
    using found missing by (simp add: apply_set_two field_update)
qed

text \<open>
  Claim C3 as stated fails: on a store without a matching order the client receives 404,
  not 200; and when two orders share the hash, a pending order that is not the first of
  them is left untouched.
\<close>

theorem order_webhook_counterexample:
  "sent (put_order [] hook_request empty_db) = Some (404, Msg ''No order found'')
   \<and> responded (put_order [] hook_request empty_db) \<noteq> Some 200
   \<and> orders (put_order [] hook_request same_hash_db)
       = [stored_order 0 ''T'' ''alice'' ''success'' ''h'' 1,
          stored_order 1 [] ''bob'' ''pending'' ''h'' 2]"
  by code_simp

theorem order_webhook_by_hash_witness:
  "validateResult hook_request [] = [] \<and> wf_collection (orders pending_db)
   \<and> responded (put_order [] hook_request pending_db) = Some 200
   \<and> orders (put_order [] hook_request pending_db)
       = [stored_order 0 ''T'' ''bob'' ''success'' ''h'' 1,
          stored_order 1 ''B'' ''carol'' ''pending'' ''k'' 2]"
proof -
  have v: "validateResult hook_request [] = []"
    by (simp add: validateResult_def validationResult_def)
  have wf: "wf_collection (orders pending_db)"
    by (simp add: wf_collection_def pending_db_def stored_order_def)
  have f: "findOne [Eq ''hash'' (to_bson (map_of (body hook_request) ''_grinderyTransactionHash''))]
             (orders pending_db) = Some (stored_order 0 [] ''bob'' ''pending'' ''h'' 1)"
    by (simp add: findOne_def matches_def field_def pending_db_def stored_order_def
          hook_request_def request_of_def)
  from order_webhook_by_hash[OF v wf] f
  have "responded (put_order [] hook_request pending_db) = Some 200
        \<and> orders (put_order [] hook_request pending_db)
            = map (\<lambda>x. if x = stored_order 0 [] ''bob'' ''pending'' ''h'' 1
                         then AList.update ''status'' (BStr ''success'')
                                (AList.update ''orderId'' (to_bson (map_of (body hook_request) ''_idTrade'')) x)
                         else x) (orders pending_db)"
    by blast
  then show ?thesis using v wf
    by (simp add: pending_db_def stored_order_def hook_request_def request_of_def)
qed

section \<open>Completing an order\<close>

text \<open>
  The allow-list of \<open>setOrderCompleteValidator\<close> permits \<open>orderId\<close> only, so a request
  that passes it carries no \<open>completionHash\<close>, and the hash that the handler records
  for it is null.
\<close>

lemma valid_complete_body:
  assumes "validateResult req setOrderCompleteValidator = []"
  shows "map_of (body req) ''completionHash'' = None"
proof -
  have "run_rule req (AllowList Body [''orderId''] ''body'') = []"
    using assms unfolding validateResult_empty_iff setOrderCompleteValidator_def by simp
  then have "fst ` set (body req) \<subseteq> {''orderId''}" unfolding allow_list_ok by simp
  then show ?thesis by (auto simp: map_of_eq_None_iff)
qed

lemma complete_records_null:
  assumes "validateResult req setOrderCompleteValidator = []"
  shows "to_bson (map_of (body req) ''completionHash'') = BNull"
  using valid_complete_body[OF assms] by simp

lemma matches_complete_filter:
  "matches (complete_filter os search req) x \<longleftrightarrow>
     field x ''orderId'' = to_bson (map_of (body req) ''orderId'')
     \<and> (\<exists>u. map_of x ''userId'' = Some (BStr u) \<and> search u)
     \<and> field x ''status'' = BStr (SUCCESS os)"
  by (auto simp: matches_def complete_filter_def split: option.splits bson.splits)

text \<open>
  What the handler does with a request that passes validation, once the store has
  compiled the identity: the first order that the filter finds gets the status
  COMPLETION and a null \<open>completionHash\<close>, the others stay, and the answer is 200;
  when the filter finds none, the answer is 404 with "No order found" and nothing is
  changed.
\<close>

lemma complete_found:
  assumes v: "validateResult req setOrderCompleteValidator = []"
    and r: "regex_i sv (userId req) = Some search"
    and wf: "wf_collection (orders d)"
    and f: "findOne (complete_filter os search req) (orders d) = Some o'"
  shows "responded (put_complete sv os req d) = Some 200"
    and "orders (put_complete sv os req d)
           = map (\<lambda>x. if x = o'
                        then AList.update ''completionHash'' BNull
                               (AList.update ''status'' (BStr (COMPLETION os)) x)
                        else x) (orders d)"
proof -
  let ?upd = "[(''status'', BStr (COMPLETION os)),
               (''completionHash'', to_bson (map_of (body req) ''completionHash''))]"
  have o: "o' \<in> set (coll Orders (status 200 (start d)))"
    using findOne_SomeD(1)[OF f] by (simp add: status_def start_simps)
  have w: "wf_collection (coll Orders (status 200 (start d)))"
    using wf by (simp add: status_def start_simps)
  have n: "\<not> raised (status 200 (start d))" by (simp add: status_def start_simps)
  have both: "responded (put_complete sv os req d) = Some 200
      \<and> orders (put_complete sv os req d)
          = map (\<lambda>x. if x = o' then apply_set ?upd x else x) (orders d)"
    using v r f
    by (simp add: put_complete_def updateOne_found[OF w o n] Let_def start_simps)
       (simp add: responded_def send_def status_def start_simps)
  show "responded (put_complete sv os req d) = Some 200" using both by simp
  show "orders (put_complete sv os req d)
           = map (\<lambda>x. if x = o'
                        then AList.update ''completionHash'' BNull
                               (AList.update ''status'' (BStr (COMPLETION os)) x)
                        else x) (orders d)"
    using both by (simp add: apply_set_two complete_records_null[OF v])
qed

lemma complete_not_found:
  assumes v: "validateResult req setOrderCompleteValidator = []"
    and r: "regex_i sv (userId req) = Some search"
    and n: "\<forall>x \<in> set (orders d). \<not> matches (complete_filter os search req) x"
  shows "sent (put_complete sv os req d) = Some (404, Msg ''No order found'')"
    and "orders (put_complete sv os req d) = orders d"
    and "mutations (put_complete sv os req d) = []"
proof -
  have "findOne (complete_filter os search req) (orders d) = None"
    using n by (simp add: findOne_None_iff)
  then show "sent (put_complete sv os req d) = Some (404, Msg ''No order found'')"
    and "orders (put_complete sv os req d) = orders d"
    and "mutations (put_complete sv os req d) = []"
    using v r by (simp_all add: put_complete_def Let_def send_def status_def start_simps)
qed

text \<open>
  Claim C4. \<open>PUT /orders/complete\<close> is to succeed only for an order whose
  \<open>userId\<close> matches the caller's identity, and to record the completionHash of the
  request. The filter is a search for the caller's identity inside \<open>userId\<close>: the
  caller "lic", whose request passes validation, completes the order "A" of the user
  "alice", and the hash recorded is null. And the allow-list of the validator permits
  \<open>orderId\<close> only: the request of "alice" that carries a completionHash is answered
  400 with the allow-list error, and the order stays as it was.
\<close>

theorem completed_by_another_user:
  "userId intruder_request = ''lic''
   \<and> validateResult intruder_request setOrderCompleteValidator = []
   \<and> orders two_users_db = [stored_order 0 ''A'' ''alice'' ''success'' ''h0'' 1,
                             stored_order 1 ''B'' ''alice2'' ''pending'' ''h1'' 2]
   \<and> field (stored_order 0 ''A'' ''alice'' ''success'' ''h0'' 1) ''userId'' = BStr ''alice''
   \<and> search_i sv ''lic'' ''alice''
   \<and> sent (put_complete sv status_names intruder_request two_users_db)
       = Some (200, UpdateResult 1 1)
   \<and> orders (put_complete sv status_names intruder_request two_users_db)
       = [stored_order 0 ''A'' ''alice'' ''completion'' ''h0'' 1 @ [(''completionHash'', BNull)],
          stored_order 1 ''B'' ''alice2'' ''pending'' ''h1'' 2]
   \<and> map_of (body hash_request) ''completionHash'' = Some (JStr ''0xabc'')
   \<and> sent (put_complete sv status_names hash_request two_users_db)
       = Some (400, Errors [\<lparr>location = Body, param = [],
                              msg = ''The following fields are not allowed in body: completionHash''\<rparr>])
   \<and> orders (put_complete sv status_names hash_request two_users_db) = orders two_users_db"
  by code_simp

section \<open>Offer webhooks when the offer is missing\<close>

lemma no_offer:
  "(\<forall>x \<in> set (offers d). field x ''offerId'' \<noteq> to_bson (map_of (body req) ''_idOffer''))
     \<longleftrightarrow> find_offer req (start d) = None"
  by (simp add: find_offer_def findOne_None_iff matches_def start_simps)

lemma set_offer_field_missing:
  assumes "map_of (body req) key = Some v" "v \<noteq> JNull" "\<not> raised c" "sent c = Some r"
  shows "set_offer_field f key m None req c
           = c\<lparr>mutations := mutations c @ [UpdateOne Offers None [(f, to_bson (Some v))]],
                raised := True\<rparr>"
  using assms
  by (simp add: set_offer_field_def coalesce_def update_and_notify_def updateOne_def Let_def
        throw_def send_def status_def dispatch_def)

lemma set_offer_field_answered:
  assumes "\<not> raised c" "sent c = Some r"
  shows "sent (set_offer_field f key m None req c) = Some r"
    and "offers (set_offer_field f key m None req c) = offers c"
    and "map_of (body req) key = None \<or> map_of (body req) key = Some JNull
           \<Longrightarrow> mutations (set_offer_field f key m None req c) = mutations c"
  using assms
  by (auto simp: set_offer_field_def coalesce_def update_and_notify_def updateOne_def Let_def
        throw_def send_def status_def dispatch_def)

text \<open>
  Claim C8, amended. No offer has the id of the request, and the request passes
  validation. \<open>max-price\<close> answers 400 "No offer found" and returns: it issues no
  update. \<open>min-price\<close>, \<open>token\<close> and \<open>chain\<close> answer 400 "No offer found" and,
  when the request supplies the new value, still issue the single-field update with the
  record that was not found (null) as its filter; \<open>activation-deactivation\<close> does the
  same after answering 404 "Not found.". The update changes no offer. The four answer
  so whether or not the request supplies the new value; when it does not, they issue no
  update.
\<close>

theorem offer_webhooks_not_found:
  assumes n: "\<forall>x \<in> set (offers d). field x ''offerId'' \<noteq> to_bson (map_of (body req) ''_idOffer'')"
  shows "(validateResult req r1 = [] \<longrightarrow>
            sent (put_offer_max_price r1 req d) = Some (400, Msg ''No offer found'')
          \<and> mutations (put_offer_max_price r1 req d) = [])
       \<and> (\<forall>v. validateResult req r2 = [] \<and> map_of (body req) ''_lowerLimitFn'' = Some v \<and> v \<noteq> JNull \<longrightarrow>
            sent (put_offer_min_price r2 req d) = Some (400, Msg ''No offer found'')
          \<and> mutations (put_offer_min_price r2 req d)
              = [UpdateOne Offers None [(''min'', to_bson (Some v))]]
          \<and> offers (put_offer_min_price r2 req d) = offers d)
       \<and> (\<forall>v. validateResult req r3 = [] \<and> map_of (body req) ''_token'' = Some v \<and> v \<noteq> JNull \<longrightarrow>
            sent (put_offer_token r3 req d) = Some (400, Msg ''No offer found'')
          \<and> mutations (put_offer_token r3 req d)
              = [UpdateOne Offers None [(''tokenAddress'', to_bson (Some v))]]
          \<and> offers (put_offer_token r3 req d) = offers d)
       \<and> (\<forall>v. validateResult req r4 = [] \<and> map_of (body req) ''_chainId'' = Some v \<and> v \<noteq> JNull \<longrightarrow>
            sent (put_offer_chain r4 req d) = Some (400, Msg ''No offer found'')
          \<and> mutations (put_offer_chain r4 req d)
              = [UpdateOne Offers None [(''chainId'', to_bson (Some v))]]
          \<and> offers (put_offer_chain r4 req d) = offers d)
       \<and> (\<forall>v. validateResult req r5 = [] \<and> map_of (body req) ''_isActive'' = Some v \<and> v \<noteq> JNull \<longrightarrow>
            sent (put_offer_activation r5 req d) = Some (404, Msg ''Not found.'')
          \<and> mutations (put_offer_activation r5 req d)
              = [UpdateOne Offers None [(''isActive'', to_bson (Some v))]]
          \<and> offers (put_offer_activation r5 req d) = offers d)
       \<and> (validateResult req r2 = [] \<longrightarrow>
            sent (put_offer_min_price r2 req d) = Some (400, Msg ''No offer found'')
          \<and> offers (put_offer_min_price r2 req d) = offers d
          \<and> (map_of (body req) ''_lowerLimitFn'' \<in> {None, Some JNull} \<longrightarrow>
                mutations (put_offer_min_price r2 req d) = []))
       \<and> (validateResult req r3 = [] \<longrightarrow>
            sent (put_offer_token r3 req d) = Some (400, Msg ''No offer found'')
          \<and> offers (put_offer_token r3 req d) = offers d
          \<and> (map_of (body req) ''_token'' \<in> {None, Some JNull} \<longrightarrow>
                mutations (put_offer_token r3 req d) = []))
       \<and> (validateResult req r4 = [] \<longrightarrow>
            sent (put_offer_chain r4 req d) = Some (400, Msg ''No offer found'')
          \<and> offers (put_offer_chain r4 req d) = offers d
          \<and> (map_of (body req) ''_chainId'' \<in> {None, Some JNull} \<longrightarrow>
                mutations (put_offer_chain r4 req d) = []))
       \<and> (validateResult req r5 = [] \<longrightarrow>
            sent (put_offer_activation r5 req d) = Some (404, Msg ''Not found.'')
          \<and> offers (put_offer_activation r5 req d) = offers d
          \<and> (map_of (body req) ''_isActive'' \<in> {None, Some JNull} \<longrightarrow>
                mutations (put_offer_activation r5 req d) = []))"
proof -
  have f: "find_offer req (start d) = None" using n by (simp add: no_offer)
  have s400: "\<not> raised (send (Msg m) (status k (start d)))
              \<and> sent (send (Msg m) (status k (start d))) = Some (k, Msg m)" for m k
    by (simp add: send_def status_def start_simps)
  have a: "sent (put_offer_max_price r1 req d) = Some (400, Msg ''No offer found'')
          \<and> mutations (put_offer_max_price r1 req d) = []" if "validateResult req r1 = []"
    using that f by (simp add: put_offer_max_price_def Let_def send_def status_def start_simps)
  have b: "sent (put_offer_min_price r2 req d) = Some (400, Msg ''No offer found'')
          \<and> mutations (put_offer_min_price r2 req d)
              = [UpdateOne Offers None [(''min'', to_bson (Some v))]]
          \<and> offers (put_offer_min_price r2 req d) = offers d"
    if "validateResult req r2 = []" "map_of (body req) ''_lowerLimitFn'' = Some v" "v \<noteq> JNull" for v
    using that f s400[of "''No offer found''" 400]
    by (simp add: put_offer_min_price_def Let_def set_offer_field_missing)
       (simp add: send_def status_def start_simps)
  have c: "sent (put_offer_token r3 req d) = Some (400, Msg ''No offer found'')
          \<and> mutations (put_offer_token r3 req d)
              = [UpdateOne Offers None [(''tokenAddress'', to_bson (Some v))]]
          \<and> offers (put_offer_token r3 req d) = offers d"
    if "validateResult req r3 = []" "map_of (body req) ''_token'' = Some v" "v \<noteq> JNull" for v
    using that f s400[of "''No offer found''" 400]
    by (simp add: put_offer_token_def Let_def set_offer_field_missing)
       (simp add: send_def status_def start_simps)
  have d: "sent (put_offer_chain r4 req d) = Some (400, Msg ''No offer found'')
          \<and> mutations (put_offer_chain r4 req d)
              = [UpdateOne Offers None [(''chainId'', to_bson (Some v))]]
          \<and> offers (put_offer_chain r4 req d) = offers d"
    if "validateResult req r4 = []" "map_of (body req) ''_chainId'' = Some v" "v \<noteq> JNull" for v
    using that f s400[of "''No offer found''" 400]
    by (simp add: put_offer_chain_def Let_def set_offer_field_missing)
       (simp add: send_def status_def start_simps)
  have e: "sent (put_offer_activation r5 req d) = Some (404, Msg ''Not found.'')
          \<and> mutations (put_offer_activation r5 req d)
              = [UpdateOne Offers None [(''isActive'', to_bson (Some v))]]
          \<and> offers (put_offer_activation r5 req d) = offers d"
    if "validateResult req r5 = []" "map_of (body req) ''_isActive'' = Some v" "v \<noteq> JNull" for v
    using that f s400[of "''Not found.''" 404]
    by (simp add: put_offer_activation_def Let_def set_offer_field_missing)
       (simp add: send_def status_def start_simps)
  have q: "\<not> raised (send (Msg m) (status k (start d)))" 
      "sent (send (Msg m) (status k (start d))) = Some (k, Msg m)"
      "offers (send (Msg m) (status k (start d))) = offers d"
      "mutations (send (Msg m) (status k (start d))) = []" for m k
    by (simp_all add: send_def status_def start_simps)
  have b': "sent (put_offer_min_price r2 req d) = Some (400, Msg ''No offer found'')
          \<and> offers (put_offer_min_price r2 req d) = offers d
          \<and> (map_of (body req) ''_lowerLimitFn'' \<in> {None, Some JNull} \<longrightarrow>
                mutations (put_offer_min_price r2 req d) = [])"
    if "validateResult req r2 = []"
    using that f set_offer_field_answered[OF q(1) q(2)]
    by (simp add: put_offer_min_price_def Let_def q)
  have c': "sent (put_offer_token r3 req d) = Some (400, Msg ''No offer found'')
          \<and> offers (put_offer_token r3 req d) = offers d
          \<and> (map_of (body req) ''_token'' \<in> {None, Some JNull} \<longrightarrow>
                mutations (put_offer_token r3 req d) = [])"
    if "validateResult req r3 = []"
    using that f set_offer_field_answered[OF q(1) q(2)]
    by (simp add: put_offer_token_def Let_def q)
  have d': "sent (put_offer_chain r4 req d) = Some (400, Msg ''No offer found'')
          \<and> offers (put_offer_chain r4 req d) = offers d
          \<and> (map_of (body req) ''_chainId'' \<in> {None, Some JNull} \<longrightarrow>
                mutations (put_offer_chain r4 req d) = [])"
    if "validateResult req r4 = []"
    using that f set_offer_field_answered[OF q(1) q(2)]
    by (simp add: put_offer_chain_def Let_def q)
  have e': "sent (put_offer_activation r5 req d) = Some (404, Msg ''Not found.'')
          \<and> offers (put_offer_activation r5 req d) = offers d
          \<and> (map_of (body req) ''_isActive'' \<in> {None, Some JNull} \<longrightarrow>
                mutations (put_offer_activation r5 req d) = [])"
    if "validateResult req r5 = []"
    using that f set_offer_field_answered[OF q(1) q(2)]
    by (simp add: put_offer_activation_def Let_def q)
  show ?thesis using a b c d e b' c' d' e' by blast
qed


text \<open>
  Claim C8 as stated fails for two of the five handlers: \<open>max-price\<close> returns after
  its response and issues no update, and \<open>activation-deactivation\<close> reports
  "Not found." with status 404, not "No offer found".
\<close>

theorem offer_webhooks_not_found_counterexample:
  "sent (put_offer_max_price [] offer_hook_request empty_db) = Some (400, Msg ''No offer found'')
   \<and> mutations (put_offer_max_price [] offer_hook_request empty_db) = []
   \<and> raised (put_offer_max_price [] offer_hook_request empty_db) = False
   \<and> sent (put_offer_activation [] offer_hook_request empty_db) = Some (404, Msg ''Not found.'')"
  by code_simp

theorem offer_webhooks_not_found_witness:
  "validateResult offer_hook_request [] = []
   \<and> sent (put_offer_max_price [] offer_hook_request empty_db) = Some (400, Msg ''No offer found'')
   \<and> mutations (put_offer_max_price [] offer_hook_request empty_db) = []
   \<and> sent (put_offer_min_price [] offer_hook_request empty_db) = Some (400, Msg ''No offer found'')
   \<and> mutations (put_offer_min_price [] offer_hook_request empty_db)
       = [UpdateOne Offers None [(''min'', BStr ''1'')]]
   \<and> mutations (put_offer_token [] offer_hook_request empty_db)
       = [UpdateOne Offers None [(''tokenAddress'', BStr ''0xt'')]]
   \<and> mutations (put_offer_chain [] offer_hook_request empty_db)
       = [UpdateOne Offers None [(''chainId'', BStr ''5'')]]
   \<and> sent (put_offer_activation [] offer_hook_request empty_db) = Some (404, Msg ''Not found.'')
   \<and> mutations (put_offer_activation [] offer_hook_request empty_db)
       = [UpdateOne Offers None [(''isActive'', BBool True)]]"
proof -
  have v: "validateResult offer_hook_request [] = []"
    by (simp add: validateResult_def validationResult_def)
  have n: "\<forall>x \<in> set (offers empty_db).
             field x ''offerId'' \<noteq> to_bson (map_of (body offer_hook_request) ''_idOffer'')"
    by (simp add: empty_db_def)
  have b: "map_of (body offer_hook_request) ''_lowerLimitFn'' = Some (JStr ''1'')
           \<and> map_of (body offer_hook_request) ''_token'' = Some (JStr ''0xt'')
           \<and> map_of (body offer_hook_request) ''_chainId'' = Some (JStr ''5'')
           \<and> map_of (body offer_hook_request) ''_isActive'' = Some (JBool True)"
    by (simp add: offer_hook_request_def request_of_def)
  from offer_webhooks_not_found[OF n, of "[]" "[]" "[]" "[]" "[]"] v b
  show ?thesis by simp
qed

section \<open>The list routes\<close>

lemma literal_compiles:
  "literal_pattern p \<Longrightarrow> regex_i sv p = Some (search_i sv p)"
  by (simp add: regex_i_def)

lemma counting_page:
  assumes "counting s" "counting l"
  shows "\<exists>found. find_sorted_page sv f s l docs = Some found"
  using assms
  by (auto simp: counting_def find_sorted_page_def Let_def split: option.splits)

lemma get_user_quiet:
  "responded (get_user sv gw rules req d) \<noteq> Some 400"
  "mutations (get_user sv gw rules req d) = []"
  "orders (get_user sv gw rules req d) = orders d"
  by (simp_all add: get_user_def responded_def send_def status_def throw_def start_simps Let_def
        split: option.splits)

lemma get_liquidity_provider_quiet:
  "responded (get_liquidity_provider sv gw rules req d) \<noteq> Some 400"
  "mutations (get_liquidity_provider sv gw rules req d) = []"
  "orders (get_liquidity_provider sv gw rules req d) = orders d"
  by (simp_all add: get_liquidity_provider_def responded_def send_def status_def throw_def
        start_simps Let_def split: option.splits active_flag.splits)

lemma get_user_runs:
  assumes "regex_i sv (userId req) = Some search"
    and "find_sorted_page sv [RegexI ''userId'' search] (or_zero (offset req))
           (or_zero (limit req)) (orders d) = Some found"
  shows "sent (get_user sv gw rules req d)
           = Some (200, OrderList (gw d found) (countDocuments [RegexI ''userId'' search] (orders d)))"
  using assms by (simp add: get_user_def send_def status_def start_simps Let_def)

lemma get_liquidity_provider_runs:
  assumes "isActiveOffers req \<noteq> NotJson"
    and "regex_i sv (userId req) = Some search"
    and "find_sorted_page sv (provider_query search (isActiveOffers req) (offers d))
           (or_zero (offset req)) (or_zero (limit req)) (orders d) = Some found"
  shows "sent (get_liquidity_provider sv gw rules req d)
           = Some (200, OrderList (gw d found)
                          (countDocuments (provider_query search (isActiveOffers req) (offers d))
                             (orders d)))"
  using assms
  by (cases "isActiveOffers req")
     (simp_all add: get_liquidity_provider_def send_def status_def start_simps Let_def)

text \<open>
  Claim C10, amended. \<open>GET /orders/user\<close> and \<open>GET /orders/liquidity-provider\<close> never
  look at the validation result: whatever their chains say about the request, neither
  answers 400 and neither changes the store. Each answers 200 with the orders whenever
  the store carries out its query, that is, takes the caller's identity as a regular
  expression and the offset and limit as a page; on \<open>/liquidity-provider\<close>,
  \<open>isActiveOffers\<close> has to be missing, empty or to parse as JSON. The store does carry
  out the query for an identity of plain characters and an offset and a limit that,
  after \<open>|| 0\<close>, are whole numbers of the 32-bit range and not negative.
\<close>

theorem list_routes_skip_validation:
  "responded (get_user sv gw rules req d) \<noteq> Some 400
   \<and> mutations (get_user sv gw rules req d) = []
   \<and> orders (get_user sv gw rules req d) = orders d
   \<and> responded (get_liquidity_provider sv gw rules req d) \<noteq> Some 400
   \<and> mutations (get_liquidity_provider sv gw rules req d) = []
   \<and> orders (get_liquidity_provider sv gw rules req d) = orders d
   \<and> (\<forall>search found.
         regex_i sv (userId req) = Some search
         \<and> find_sorted_page sv [RegexI ''userId'' search] (or_zero (offset req))
              (or_zero (limit req)) (orders d) = Some found
         \<longrightarrow> sent (get_user sv gw rules req d)
               = Some (200, OrderList (gw d found)
                              (countDocuments [RegexI ''userId'' search] (orders d))))
   \<and> (\<forall>search found.
         isActiveOffers req \<noteq> NotJson
         \<and> regex_i sv (userId req) = Some search
         \<and> find_sorted_page sv (provider_query search (isActiveOffers req) (offers d))
              (or_zero (offset req)) (or_zero (limit req)) (orders d) = Some found
         \<longrightarrow> sent (get_liquidity_provider sv gw rules req d)
               = Some (200, OrderList (gw d found)
                              (countDocuments
                                 (provider_query search (isActiveOffers req) (offers d))
                                 (orders d))))
   \<and> (literal_pattern (userId req) \<and> counting (or_zero (offset req))
        \<and> counting (or_zero (limit req))
       \<longrightarrow> responded (get_user sv gw rules req d) = Some 200
         \<and> (isActiveOffers req \<noteq> NotJson
              \<longrightarrow> responded (get_liquidity_provider sv gw rules req d) = Some 200))"
proof -
  have plain: "responded (get_user sv gw rules req d) = Some 200
         \<and> (isActiveOffers req \<noteq> NotJson
              \<longrightarrow> responded (get_liquidity_provider sv gw rules req d) = Some 200)"
    if l: "literal_pattern (userId req)" and s: "counting (or_zero (offset req))"
      and m: "counting (or_zero (limit req))"
  proof -
    let ?search = "search_i sv (userId req)"
    have r: "regex_i sv (userId req) = Some ?search" using l by (rule literal_compiles)
    obtain found where f: "find_sorted_page sv [RegexI ''userId'' ?search]
        (or_zero (offset req)) (or_zero (limit req)) (orders d) = Some found"
      using counting_page[OF s m] by blast
    obtain found' where f': "find_sorted_page sv
        (provider_query ?search (isActiveOffers req) (offers d))
        (or_zero (offset req)) (or_zero (limit req)) (orders d) = Some found'"
      using counting_page[OF s m] by blast
    show ?thesis
      using get_user_runs[OF r f] get_liquidity_provider_runs[OF _ r f']
      by (simp add: responded_def)
  qed
  show ?thesis
    using plain get_user_runs get_liquidity_provider_runs
    by (simp add: get_user_quiet get_liquidity_provider_quiet)
qed

text \<open>
  Claim C10 as stated fails. With \<open>isActiveOffers=abc\<close>, which the chain rejects,
  \<open>JSON.parse\<close> throws before anything is sent; and with \<open>offset=-1\<close> the store
  refuses the negative skip and the query throws. Neither request gets a response.
\<close>

theorem list_routes_skip_validation_counterexample:
  "validateResult not_json_request active_chain
     = [\<lparr>location = Query, param = ''isActiveOffers'', msg = ''must be boolean value''\<rparr>]
   \<and> sent (get_liquidity_provider strict_server orders_as_stored active_chain not_json_request
             two_users_db) = None
   \<and> raised (get_liquidity_provider strict_server orders_as_stored active_chain not_json_request
               two_users_db) = True
   \<and> validateResult negative_offset_request pagination_chain
       = [\<lparr>location = Query, param = ''limit'', msg = ''must not be empty''\<rparr>]
   \<and> offset negative_offset_request = Fin (- 1)
   \<and> sent (get_user strict_server orders_as_stored pagination_chain negative_offset_request
             two_users_db) = None
   \<and> raised (get_user strict_server orders_as_stored pagination_chain negative_offset_request
               two_users_db) = True
   \<and> sent (get_liquidity_provider strict_server orders_as_stored pagination_chain
             negative_offset_request two_users_db) = None"
  by code_simp

theorem list_routes_skip_validation_witness:
  "validateResult truthy_request active_chain
     = [\<lparr>location = Query, param = ''isActiveOffers'', msg = ''must be boolean value''\<rparr>]
   \<and> isActiveOffers truthy_request \<noteq> NotJson
   \<and> literal_pattern (userId truthy_request)
   \<and> counting (or_zero (offset truthy_request))
   \<and> counting (or_zero (limit truthy_request))
   \<and> responded (get_user strict_server orders_as_stored active_chain truthy_request two_users_db)
       = Some 200
   \<and> responded (get_liquidity_provider strict_server orders_as_stored active_chain truthy_request
                  two_users_db) = Some 200
   \<and> mutations (get_user strict_server orders_as_stored active_chain truthy_request two_users_db)
       = []
   \<and> sent (get_user strict_server orders_as_stored active_chain truthy_request two_users_db)
       = Some (200, OrderList [stored_order 1 ''B'' ''alice2'' ''pending'' ''h1'' 2,
                               stored_order 0 ''A'' ''alice'' ''success'' ''h0'' 1] 2)"
proof -
  let ?search = "search_i strict_server ''alice''"
  let ?found = "[stored_order 1 ''B'' ''alice2'' ''pending'' ''h1'' 2,
                 stored_order 0 ''A'' ''alice'' ''success'' ''h0'' 1]"
  have v: "validateResult truthy_request active_chain
     = [\<lparr>location = Query, param = ''isActiveOffers'', msg = ''must be boolean value''\<rparr>]"
    by code_simp
  have j: "isActiveOffers truthy_request \<noteq> NotJson"
    by (simp add: truthy_request_def)
  have l: "literal_pattern (userId truthy_request)"
    by (simp add: truthy_request_def request_of_def literal_pattern_def)
  have s: "counting (or_zero (offset truthy_request))"
    by (simp add: truthy_request_def request_of_def or_zero_def counting_def whole_def)
  have m: "counting (or_zero (limit truthy_request))"
    by (simp add: truthy_request_def request_of_def or_zero_def counting_def whole_def)
  have r: "regex_i strict_server (userId truthy_request) = Some ?search"
    by (simp add: truthy_request_def request_of_def regex_i_def literal_pattern_def)
  have f: "find_sorted_page strict_server [RegexI ''userId'' ?search]
             (or_zero (offset truthy_request)) (or_zero (limit truthy_request))
             (orders two_users_db) = Some ?found"
    by code_simp
  have n: "countDocuments [RegexI ''userId'' ?search] (orders two_users_db) = 2"
    by code_simp
  note t = list_routes_skip_validation[of strict_server orders_as_stored active_chain
      truthy_request two_users_db]
  from t j l s m
  have a: "responded (get_user strict_server orders_as_stored active_chain truthy_request
                        two_users_db) = Some 200
      \<and> responded (get_liquidity_provider strict_server orders_as_stored active_chain
                     truthy_request two_users_db) = Some 200
      \<and> mutations (get_user strict_server orders_as_stored active_chain truthy_request
                     two_users_db) = []"
    by simp
  from t r f
  have "sent (get_user strict_server orders_as_stored active_chain truthy_request two_users_db)
          = Some (200, OrderList (orders_as_stored two_users_db ?found)
                         (countDocuments [RegexI ''userId'' ?search] (orders two_users_db)))"
    by blast
  then have b: "sent (get_user strict_server orders_as_stored active_chain truthy_request
                        two_users_db) = Some (200, OrderList ?found 2)"
    by (simp add: n orders_as_stored_def)
  show ?thesis using v j l s m a b by simp
qed

section \<open>Validation errors stop a handler\<close>

lemma errors_response:
  "sent (send (Errors es) (status 400 (start d))) = Some (400, Errors es)"
  "mutations (send (Errors es) (status 400 (start d))) = []"
  "orders (send (Errors es) (status 400 (start d))) = orders d"
  "offers (send (Errors es) (status 400 (start d))) = offers d"
  by (simp_all add: send_def status_def start_simps)

text \<open>
  The handlers that call \<open>validateResult\<close> answer a request with a non-empty error
  list with 400 and the errors, and leave the store alone.
\<close>

lemma validation_stops_webhooks:
  assumes "validateResult req rules \<noteq> []"
  shows "\<forall>c \<in> {put_offer_max_price rules req d, put_offer_min_price rules req d,
                 put_offer_token rules req d, put_offer_chain rules req d,
                 put_offer_activation rules req d, put_offer rules req d, put_order rules req d}.
           sent c = Some (400, Errors (validateResult req rules)) \<and> mutations c = []
           \<and> orders c = orders d \<and> offers c = offers d"
  using assms
  by (simp add: put_offer_max_price_def put_offer_min_price_def put_offer_token_def
        put_offer_chain_def put_offer_activation_def put_offer_def put_order_def
        errors_response Let_def)

lemma validation_stops_order_routes:
  shows "validateResult req createOrderValidator \<noteq> [] \<Longrightarrow>
           sent (post_order os req d) = Some (400, Errors (validateResult req createOrderValidator))
           \<and> mutations (post_order os req d) = [] \<and> orders (post_order os req d) = orders d"
    and "validateResult req setOrderCompleteValidator \<noteq> [] \<Longrightarrow>
           sent (put_complete sv os req d)
             = Some (400, Errors (validateResult req setOrderCompleteValidator))
           \<and> mutations (put_complete sv os req d) = []
           \<and> orders (put_complete sv os req d) = orders d"
    and "validateResult req deleteOrderValidator \<noteq> [] \<Longrightarrow>
           sent (delete_order sv req d) = Some (400, Errors (validateResult req deleteOrderValidator))
           \<and> mutations (delete_order sv req d) = [] \<and> orders (delete_order sv req d) = orders d"
  by (simp_all add: post_order_def put_complete_def delete_order_def errors_response Let_def)

text \<open>
  Claim C2. Every endpoint is to answer a request whose error list is not empty with
  400 and the error array, without changing the store. The handlers above do;
  \<open>GET /orders/user\<close> does not: for a request on which its chain reports an error it
  answers 200 with the orders.
\<close>

theorem list_route_answers_despite_errors:
  "validateResult (request_of ''alice'' []) pagination_chain
     = [\<lparr>location = Query, param = ''limit'', msg = ''must not be empty''\<rparr>]
   \<and> sent (get_user sv orders_as_stored pagination_chain (request_of ''alice'' []) two_users_db)
       = Some (200, OrderList [stored_order 1 ''B'' ''alice2'' ''pending'' ''h1'' 2,
                               stored_order 0 ''A'' ''alice'' ''success'' ''h0'' 1] 2)"
  by code_simp

section \<open>Orders by user\<close>

text \<open>
  Claim C5. \<open>GET /orders/user\<close> is to return exactly the caller's orders. The filter is
  a search for the caller's identity inside \<open>userId\<close>: the caller "alice" also gets
  the order of the user "alice2", newest first.
\<close>

theorem other_users_orders_listed:
  "regex_i sv ''alice'' = Some (search_i sv ''alice'')
   \<and> userId (request_of ''alice'' []) = ''alice''
   \<and> field (stored_order 1 ''B'' ''alice2'' ''pending'' ''h1'' 2) ''userId'' = BStr ''alice2''
   \<and> search_i sv ''alice'' ''alice2''
   \<and> find_sorted_page sv [RegexI ''userId'' (search_i sv ''alice'')] (Fin 0) (Fin 0)
         (orders two_users_db)
       = Some [stored_order 1 ''B'' ''alice2'' ''pending'' ''h1'' 2,
               stored_order 0 ''A'' ''alice'' ''success'' ''h0'' 1]
   \<and> sent (get_user sv orders_as_stored [] (request_of ''alice'' []) two_users_db)
       = Some (200, OrderList [stored_order 1 ''B'' ''alice2'' ''pending'' ''h1'' 2,
                               stored_order 0 ''A'' ''alice'' ''success'' ''h0'' 1] 2)"
proof (rule conjI)
  show "regex_i sv ''alice'' = Some (search_i sv ''alice'')"
    by (simp add: regex_i_def literal_pattern_def)
qed code_simp

end
